theory Spec2Isabelle
  imports Main
begin

unbundle bit_operations_syntax

section \<open>The shell of \<^verbatim>\<open>src/myshell.c\<close>, embedded\<close>

text \<open>
  The token vector \<^verbatim>\<open>vec_t\<close> of \<^verbatim>\<open>char *\<close> is a list of strings: its length is
  \<^verbatim>\<open>npos\<close>, and reading a slot at or beyond \<^verbatim>\<open>npos\<close> is a memory fault of the model (the C
  code would read a stale, NULL or unallocated pointer there). A \<^verbatim>\<open>char *\<close> that may be NULL
  is a \<open>string option\<close>. Allocation is taken to succeed (\<^verbatim>\<open>vec_push\<close> and \<^verbatim>\<open>malloc\<close>
  failing end the shell in the source).
\<close>

subsection \<open>Data\<close>

datatype fault = Memory_fault

datatype parse_t = PARSE_SUCCESS | PARSE_ERROR

text \<open>\<^verbatim>\<open>command_t\<close>: \<open>argv\<close> is the NULL-terminated array, each slot a pointer.\<close>

record command_t =
  argv :: "string option list option"
  dest :: "string option"
  src :: "string option"
  is_bkg_proc :: bool

text \<open>\<^verbatim>\<open>memset(&command, 0, sizeof(command_t))\<close>\<close>

definition zero_command :: command_t where
  "zero_command = \<lparr>argv = None, dest = None, src = None, is_bkg_proc = False\<rparr>"

text \<open>The process-wide variables of the parser and the launcher.\<close>

record globals =
  global_num_pipes :: int
  global_num_commands :: int
  global_bkg_proc :: bool
  global_builtin_idxs :: "int list"
  global_num_builtins :: int

definition NUM_BUILTINS :: nat where "NUM_BUILTINS = 2"
definition CMD_EXIT :: nat where "CMD_EXIT = 0"
definition CMD_CD :: nat where "CMD_CD = 1"

text \<open>The values the globals have when the program starts.\<close>

definition initial_globals :: globals where
  "initial_globals = \<lparr>global_num_pipes = 0, global_num_commands = 1, global_bkg_proc = False,
     global_builtin_idxs = [0, 0], global_num_builtins = 0\<rparr>"

subsection \<open>Tokens\<close>

text \<open>\<^verbatim>\<open>vec_contents[idx][0]\<close>: the first byte of a token, the terminating NUL for an empty one.\<close>

definition first_char :: "string \<Rightarrow> char" where
  "first_char s = (case s of [] \<Rightarrow> CHR 0x00 | c # _ \<Rightarrow> c)"

text \<open>
  A \<^verbatim>\<open>size_t\<close> expression: its value modulo \<open>2 ^ 64\<close> (pointers and \<^verbatim>\<open>size_t\<close> are taken
  to be 64 bits wide, so \<^verbatim>\<open>sizeof(char *)\<close> is 8).
\<close>

definition size_t_of :: "int \<Rightarrow> int" where
  "size_t_of x = x mod 2 ^ 64"

text \<open>
  \<^verbatim>\<open>slice_argv_from_vec\<close>. \<open>len\<close> is the byte length of the new array, which has
  \<^verbatim>\<open>len / cp_size\<close> slots: \<^verbatim>\<open>memcpy\<close> copies \<^verbatim>\<open>len - cp_size\<close> bytes, that is one pointer
  fewer than there are slots, from slot \<open>start_pos\<close> of the vector on, and the last slot is
  set to NULL. With \<open>len = 0\<close> the length \<^verbatim>\<open>len - cp_size\<close> wraps around: a fault. Copying
  from slots beyond \<^verbatim>\<open>npos\<close> is a fault of the model too.
\<close>

definition slice_argv_from_vec :: "string list \<Rightarrow> nat \<Rightarrow> int \<Rightarrow> fault + string option list" where
  "slice_argv_from_vec p_vec start_pos end_pos =
     (let cp_size = 8;
          len = size_t_of ((end_pos + 2 - int start_pos) * cp_size);
          slots = len div cp_size
      in if len = 0 \<or> int (length p_vec) < int start_pos + (slots - 1) then Inl Memory_fault
         else Inr (map Some (take (nat (slots - 1)) (drop start_pos p_vec)) @ [None]))"

subsection \<open>The single-command parser\<close>

text \<open>
  \<^verbatim>\<open>if (!p_command->argv) p_command->argv = slice_argv_from_vec(p_vec, 0, end_pos);\<close>
\<close>

definition argv_if_unset :: "string list \<Rightarrow> int \<Rightarrow> command_t \<Rightarrow> fault + command_t" where
  "argv_if_unset p_vec end_pos c =
     (case argv c of
        Some _ \<Rightarrow> Inr c
      | None \<Rightarrow>
          (case slice_argv_from_vec p_vec 0 end_pos of
             Inl f \<Rightarrow> Inl f
           | Inr a \<Rightarrow> Inr (c\<lparr>argv := Some a\<rparr>)))"

text \<open>
  The \<^verbatim>\<open>for\<close> loop of \<^verbatim>\<open>parse_single_command\<close> from \<open>idx\<close> on. It returns the result
  code, the command as left in \<^verbatim>\<open>*p_command\<close> and \<^verbatim>\<open>global_bkg_proc\<close>.
\<close>

function parse_single_loop ::
  "string list \<Rightarrow> nat \<Rightarrow> bool \<Rightarrow> command_t \<Rightarrow> bool \<Rightarrow> fault + (parse_t \<times> command_t \<times> bool)" where
  "parse_single_loop p_vec idx seen_command c bkg =
     (if idx < length p_vec then
        (if first_char (p_vec ! idx) = CHR ''<'' then
           (if idx + 1 = length p_vec then Inr (PARSE_ERROR, c, bkg)
            else if first_char (p_vec ! (idx + 1)) = CHR ''>''
                  \<or> first_char (p_vec ! (idx + 1)) = CHR ''<''
                  \<or> first_char (p_vec ! (idx + 1)) = CHR ''|'' then Inr (PARSE_ERROR, c, bkg)
            else (case argv_if_unset p_vec (size_t_of (int idx - 1)) c of
                    Inl f \<Rightarrow> Inl f
                  | Inr c' \<Rightarrow>
                      parse_single_loop p_vec (idx + 2) seen_command
                        (c'\<lparr>src := Some (p_vec ! (idx + 1))\<rparr>) bkg))
         else if first_char (p_vec ! idx) = CHR ''>'' then
           (if idx + 1 = length p_vec then Inr (PARSE_ERROR, c, bkg)
            else if first_char (p_vec ! (idx + 1)) = CHR ''>''
                  \<or> first_char (p_vec ! (idx + 1)) = CHR ''<''
                  \<or> first_char (p_vec ! (idx + 1)) = CHR ''|'' then Inr (PARSE_ERROR, c, bkg)
            else (case argv_if_unset p_vec (size_t_of (int idx - 1)) c of
                    Inl f \<Rightarrow> Inl f
                  | Inr c' \<Rightarrow>
                      parse_single_loop p_vec (idx + 2) seen_command
                        (c'\<lparr>dest := Some (p_vec ! (idx + 1))\<rparr>) bkg))
         else if first_char (p_vec ! idx) = CHR ''&'' then
           (if idx + 1 = length p_vec then
              (case argv_if_unset p_vec (size_t_of (int idx - 1)) c of
                 Inl f \<Rightarrow> Inl f
               | Inr c' \<Rightarrow> parse_single_loop p_vec (idx + 1) seen_command c' True)
            else Inr (PARSE_ERROR, c, bkg))
         else
           (if idx + 1 = length p_vec \<and> \<not> seen_command then
              (case argv_if_unset p_vec (size_t_of (int idx)) c of
                 Inl f \<Rightarrow> Inl f
               | Inr c' \<Rightarrow> parse_single_loop p_vec (idx + 1) True c' bkg)
            else parse_single_loop p_vec (idx + 1) seen_command c bkg))
      else Inr (PARSE_SUCCESS, c, bkg))"
  by pat_completeness auto
termination
  by (relation "measure (\<lambda>(p_vec, idx, seen_command, c, bkg). length p_vec - idx)") auto

text \<open>
  \<^verbatim>\<open>parse_single_command\<close>: the result code, \<^verbatim>\<open>*p_command\<close> and the globals afterwards.
\<close>

definition parse_single_command ::
  "string list \<Rightarrow> command_t \<Rightarrow> globals \<Rightarrow> fault + (parse_t \<times> command_t \<times> globals)" where
  "parse_single_command p_vec p_command g =
     (let g0 = g\<lparr>global_num_pipes := 0\<rparr> in
      if length p_vec = 0 then Inr (PARSE_ERROR, p_command, g0)
      else (case parse_single_loop p_vec 0 False p_command (global_bkg_proc g0) of
              Inl f \<Rightarrow> Inl f
            | Inr (r, c, bkg) \<Rightarrow> Inr (r, c, g0\<lparr>global_bkg_proc := bkg\<rparr>)))"

subsection \<open>The pipeline parser\<close>

text \<open>
  The first loop of \<^verbatim>\<open>parse_multiple_commands\<close> (seek the end of the first command): the
  index of the first token that starts with \<^verbatim>\<open>|\<close>, \<^verbatim>\<open><\<close> or \<^verbatim>\<open>&\<close>, \<open>None\<close> when a
  \<^verbatim>\<open>>\<close> comes first (a parse error), a fault when the tokens run out.
\<close>

function seek_first_end :: "string list \<Rightarrow> nat \<Rightarrow> fault + nat option" where
  "seek_first_end p_vec idx =
     (if length p_vec \<le> idx then Inl Memory_fault
      else if first_char (p_vec ! idx) \<noteq> CHR ''|''
            \<and> first_char (p_vec ! idx) \<noteq> CHR ''<''
            \<and> first_char (p_vec ! idx) \<noteq> CHR ''&'' then
        (if first_char (p_vec ! idx) = CHR ''>'' then Inr None
         else seek_first_end p_vec (idx + 1))
      else Inr (Some idx))"
  by pat_completeness auto
termination
  by (relation "measure (\<lambda>(p_vec, idx). length p_vec - idx)") auto

text \<open>
  The inner loop of the \<^verbatim>\<open>>\<close> case: is there a token starting with \<^verbatim>\<open>|\<close> at an index
  from \<open>inner_idx\<close> up to, but excluding, \<^verbatim>\<open>npos - 1\<close>?
\<close>

function pipe_ahead :: "string list \<Rightarrow> nat \<Rightarrow> bool" where
  "pipe_ahead p_vec inner_idx =
     (if inner_idx < length p_vec - 1 then
        (if first_char (p_vec ! inner_idx) = CHR ''|'' then True
         else pipe_ahead p_vec (inner_idx + 1))
      else False)"
  by pat_completeness auto
termination
  by (relation "measure (\<lambda>(p_vec, inner_idx). length p_vec - inner_idx)") auto

text \<open>
  The \<^verbatim>\<open>for\<close> loop of \<^verbatim>\<open>parse_multiple_commands\<close> from \<open>idx\<close> on, and the push after it.
  \<open>cur\<close> is \<^verbatim>\<open>current_command\<close>, \<open>cmds\<close> the command vector.
\<close>

function parse_multiple_loop ::
  "string list \<Rightarrow> nat \<Rightarrow> nat \<Rightarrow> bool \<Rightarrow> command_t \<Rightarrow> command_t list \<Rightarrow> bool
     \<Rightarrow> fault + (parse_t \<times> command_t list \<times> bool)" where
  "parse_multiple_loop p_vec idx command_start_idx seen_command cur cmds bkg =
     (if idx < length p_vec then
        (if first_char (p_vec ! idx) = CHR ''|'' then
           (if \<not> seen_command then Inr (PARSE_ERROR, cmds, bkg)
            else if idx + 1 = length p_vec then Inr (PARSE_ERROR, cmds, bkg)
            else if first_char (p_vec ! (idx + 1)) = CHR ''<''
                  \<or> first_char (p_vec ! (idx + 1)) = CHR ''>''
                  \<or> first_char (p_vec ! (idx + 1)) = CHR ''&'' then Inr (PARSE_ERROR, cmds, bkg)
            else (case slice_argv_from_vec p_vec command_start_idx (size_t_of (int idx - 1)) of
                    Inl f \<Rightarrow> Inl f
                  | Inr a \<Rightarrow>
                      parse_multiple_loop p_vec (idx + 1) (idx + 1) False zero_command
                        (cmds @ [cur\<lparr>argv := Some a\<rparr>]) bkg))
         else if first_char (p_vec ! idx) = CHR ''<'' then Inr (PARSE_ERROR, cmds, bkg)
         else if first_char (p_vec ! idx) = CHR ''>'' then
           (if \<not> seen_command then Inr (PARSE_ERROR, cmds, bkg)
            else if idx + 1 = length p_vec then Inr (PARSE_ERROR, cmds, bkg)
            else if pipe_ahead p_vec idx then Inr (PARSE_ERROR, cmds, bkg)
            else if first_char (p_vec ! (idx + 1)) = CHR ''<''
                  \<or> first_char (p_vec ! (idx + 1)) = CHR ''>''
                  \<or> first_char (p_vec ! (idx + 1)) = CHR ''&'' then Inr (PARSE_ERROR, cmds, bkg)
            else (case slice_argv_from_vec p_vec command_start_idx (size_t_of (int idx - 1)) of
                    Inl f \<Rightarrow> Inl f
                  | Inr a \<Rightarrow>
                      parse_multiple_loop p_vec (idx + 2) command_start_idx False zero_command
                        (cmds @ [cur\<lparr>argv := Some a, dest := Some (p_vec ! (idx + 1))\<rparr>]) bkg))
         else if first_char (p_vec ! idx) = CHR ''&'' then
           (if idx + 1 = length p_vec then
              (if seen_command then
                 (case slice_argv_from_vec p_vec command_start_idx (size_t_of (int idx - 1)) of
                    Inl f \<Rightarrow> Inl f
                  | Inr a \<Rightarrow>
                      parse_multiple_loop p_vec (idx + 1) command_start_idx False
                        (cur\<lparr>argv := Some a\<rparr>) (cmds @ [cur\<lparr>argv := Some a\<rparr>]) True)
               else parse_multiple_loop p_vec (idx + 1) command_start_idx seen_command cur cmds True)
            else Inr (PARSE_ERROR, cmds, bkg))
         else
           (if \<not> seen_command then parse_multiple_loop p_vec (idx + 1) idx True cur cmds bkg
            else parse_multiple_loop p_vec (idx + 1) command_start_idx seen_command cur cmds bkg))
      else if seen_command then
        (case slice_argv_from_vec p_vec command_start_idx (size_t_of (int idx - 1)) of
           Inl f \<Rightarrow> Inl f
         | Inr a \<Rightarrow> Inr (PARSE_SUCCESS, cmds @ [cur\<lparr>argv := Some a\<rparr>], bkg))
      else Inr (PARSE_SUCCESS, cmds, bkg))"
  by pat_completeness auto
termination
  by (relation "measure (\<lambda>(p_vec, idx, command_start_idx, seen_command, cur, cmds, bkg).
        length p_vec - idx)") auto

text \<open>
  \<^verbatim>\<open>parse_multiple_commands\<close>: the result code, the command vector and the globals
  afterwards. After the first command, a \<^verbatim>\<open><\<close> with more than three tokens behind it has
  the next token as its file name, and the token after that is skipped unread as the
  anticipated pipe.
\<close>

definition parse_multiple_commands ::
  "string list \<Rightarrow> command_t list \<Rightarrow> globals \<Rightarrow> fault + (parse_t \<times> command_t list \<times> globals)" where
  "parse_multiple_commands p_vec p_command_vec g =
     (case seek_first_end p_vec 0 of
        Inl f \<Rightarrow> Inl f
      | Inr None \<Rightarrow> Inr (PARSE_ERROR, p_command_vec, g)
      | Inr (Some idx) \<Rightarrow>
          (case slice_argv_from_vec p_vec 0 (size_t_of (int idx - 1)) of
             Inl f \<Rightarrow> Inl f
           | Inr a \<Rightarrow>
               (let redirected = (first_char (p_vec ! idx) = CHR ''<'' \<and> idx + 3 < length p_vec);
                    current_command =
                      (if redirected then zero_command\<lparr>argv := Some a, src := Some (p_vec ! (idx + 1))\<rparr>
                       else zero_command\<lparr>argv := Some a\<rparr>);
                    idx' = (if redirected then idx + 2 else idx) + 1
                in (case parse_multiple_loop p_vec idx' idx' False zero_command
                          (p_command_vec @ [current_command]) (global_bkg_proc g) of
                      Inl f \<Rightarrow> Inl f
                    | Inr (r, cmds, bkg) \<Rightarrow> Inr (r, cmds, g\<lparr>global_bkg_proc := bkg\<rparr>)))))"

subsection \<open>The lexer's actions and \<^verbatim>\<open>shell_read\<close>\<close>

text \<open>
  What the scanner matched, by rule of the flex source: the builtin words, the pipe, the
  other operators (with their text), a quoted string (\<^verbatim>\<open>yytext\<close> with its delimiters) and
  a word. Each action pushes a token and, for the builtins and the pipe, updates the tags.
\<close>

datatype lexeme = Lex_cd | Lex_exit | Lex_pipe | Lex_op string | Lex_quoted string | Lex_word string

definition lexer_action :: "lexeme \<Rightarrow> string list \<times> globals \<Rightarrow> string list \<times> globals" where
  "lexer_action l s =
     (case s of (toks, g) \<Rightarrow>
        (case l of
           Lex_cd \<Rightarrow>
             (toks @ [''cd''],
              g\<lparr>global_builtin_idxs := (global_builtin_idxs g)[CMD_CD := global_num_commands g - 1],
                global_num_builtins := global_num_builtins g + 1\<rparr>)
         | Lex_exit \<Rightarrow>
             (toks @ [''exit''],
              g\<lparr>global_builtin_idxs := (global_builtin_idxs g)[CMD_EXIT := global_num_commands g - 1],
                global_num_builtins := global_num_builtins g + 1\<rparr>)
         | Lex_pipe \<Rightarrow> (toks @ [''|''], g\<lparr>global_num_commands := global_num_commands g + 1\<rparr>)
         | Lex_op t \<Rightarrow> (toks @ [t], g)
         | Lex_quoted t \<Rightarrow>
             (if 0 < length t - 2 then (toks @ [take (length t - 2) (drop 1 t)], g) else (toks, g))
         | Lex_word t \<Rightarrow> (toks @ [t], g)))"

text \<open>\<^verbatim>\<open>yylex\<close> on one line: the actions of its lexemes, left to right.\<close>

definition lexer_parse_buffer :: "lexeme list \<Rightarrow> string list \<times> globals \<Rightarrow> string list \<times> globals" where
  "lexer_parse_buffer ls s = fold lexer_action ls s"

subsection \<open>The process and its environment\<close>

text \<open>
  The system calls and library calls the shell makes are events of the process, in order.
  \<open>Pipe k\<close> is \<^verbatim>\<open>pipe(&fd[k])\<close>, which stores the read end in slot \<open>k\<close> and the write end in
  slot \<open>k + 1\<close>; \<open>Fork r\<close> is a \<^verbatim>\<open>fork()\<close> that returned \<open>r\<close> in this process;
  \<open>Redirect_open\<close>, \<open>Fclose_std\<close>, \<open>Dup_file\<close> and \<open>Fclose_file\<close> are the four calls of a file
  redirect; \<open>Fault\<close> is a memory fault, which ends the process.
\<close>

datatype event =
    Puts string
  | Perror string
  | Chdir string
  | Pipe nat
  | Fork int
  | Redirect_open string string
  | Fclose_std int
  | Dup_file
  | Fclose_file
  | Dup2 int int
  | Close int
  | Execvp "string option" "string option list"
  | Waitpid int
  | Exit int
  | Fault

record proc =
  cwd :: string
  events :: "event list"

text \<open>
  A call either returns to its caller, with a value, or the process stops in it: it exits,
  faults or, after a successful \<^verbatim>\<open>execvp\<close>, runs another program.
\<close>

datatype 'a outcome = Returns 'a proc | Stops proc

definition and_then :: "'a outcome \<Rightarrow> ('a \<Rightarrow> proc \<Rightarrow> 'b outcome) \<Rightarrow> 'b outcome" where
  "and_then r f = (case r of Stops q \<Rightarrow> Stops q | Returns x q \<Rightarrow> f x q)"

definition emit :: "event list \<Rightarrow> proc \<Rightarrow> proc" where
  "emit es p = p\<lparr>events := events p @ es\<rparr>"

text \<open>
  What the operating system answers: the environment variable \<^verbatim>\<open>HOME\<close>; the home directory
  of the password database (\<open>None\<close> when \<^verbatim>\<open>getpwuid\<close> returns NULL); \<^verbatim>\<open>chdir\<close> from a
  working directory to a path (the new working directory, \<open>None\<close> when it fails); the
  return value of the \<open>k\<close>-th \<^verbatim>\<open>fork\<close> of a launch in this process; the descriptor in slot
  \<open>k\<close> of the array \<^verbatim>\<open>fd\<close> after the \<^verbatim>\<open>pipe\<close> calls; whether \<^verbatim>\<open>fopen\<close> of a path succeeds;
  whether \<^verbatim>\<open>execvp\<close> succeeds.
\<close>

record os_env =
  env_HOME :: "string option"
  env_pw_dir :: "string option"
  chdir_to :: "string \<Rightarrow> string \<Rightarrow> string option"
  fork_ret :: "nat \<Rightarrow> int"
  pipe_fd :: "nat \<Rightarrow> int"
  fopen_ok :: "string \<Rightarrow> bool"
  execvp_ok :: bool

definition EXIT_SUCCESS :: int where "EXIT_SUCCESS = 0"
definition EXIT_FAILURE :: int where "EXIT_FAILURE = 1"
definition STDIN_FILENO :: int where "STDIN_FILENO = 0"
definition STDOUT_FILENO :: int where "STDOUT_FILENO = 1"
definition PIPE_NONE :: int where "PIPE_NONE = 0"
definition PIPE_OUT :: int where "PIPE_OUT = 1"
definition PIPE_IN :: int where "PIPE_IN = 2"
definition PARSE_ERROR_MSG :: string where "PARSE_ERROR_MSG = ''ERROR: invalid input''"

text \<open>
  \<^verbatim>\<open>shell_read\<close>: the tags are reset, then the line is scanned into the (cleared) token
  vector; at the end of the input (\<open>None\<close>) the shell exits.
\<close>

definition shell_read :: "lexeme list option \<Rightarrow> globals \<Rightarrow> proc \<Rightarrow> (string list \<times> globals) outcome" where
  "shell_read line g p =
     (let g0 = g\<lparr>global_num_commands := 1, global_num_builtins := 0, global_builtin_idxs := [- 1, - 1]\<rparr>
      in case line of
           Some ls \<Rightarrow> Returns (lexer_parse_buffer ls ([], g0)) p
         | None \<Rightarrow> Stops (emit [Exit EXIT_SUCCESS] p))"

subsection \<open>The builtins\<close>

definition parse_builtin_cmds :: "globals \<Rightarrow> parse_t" where
  "parse_builtin_cmds g =
     (if global_num_builtins g > 1 then PARSE_ERROR
      else if global_num_builtins g = 1 \<and> global_num_commands g > 1 then PARSE_ERROR
      else if list_ex (\<lambda>i. global_builtin_idxs g ! i > 1) [0..<NUM_BUILTINS] then PARSE_ERROR
      else PARSE_SUCCESS)"

text \<open>\<^verbatim>\<open>int res = chdir(path); if (res == -1) perror("ERROR: cd");\<close>\<close>

definition chdir_or_perror :: "os_env \<Rightarrow> string \<Rightarrow> proc \<Rightarrow> proc" where
  "chdir_or_perror e path p =
     (case chdir_to e (cwd p) path of
        Some d \<Rightarrow> emit [Chdir path] (p\<lparr>cwd := d\<rparr>)
      | None \<Rightarrow> emit [Chdir path, Perror ''ERROR: cd''] p)"

text \<open>The body of the loop of \<^verbatim>\<open>eval_builtin_cmds\<close> for the builtin \<open>i\<close>.\<close>

definition eval_builtin :: "os_env \<Rightarrow> string list \<Rightarrow> nat \<Rightarrow> proc \<Rightarrow> unit outcome" where
  "eval_builtin e p_vec i p =
     (if i = CMD_EXIT then Stops (emit [Exit EXIT_SUCCESS] p)
      else if i = CMD_CD then
        (if length p_vec = 1 then
           (case env_HOME e of
              Some home_dir \<Rightarrow> Returns () (chdir_or_perror e home_dir p)
            | None \<Rightarrow>
                (case env_pw_dir e of
                   Some home_dir \<Rightarrow> Returns () (chdir_or_perror e home_dir p)
                 | None \<Rightarrow> Stops (emit [Fault] p)))
         else if length p_vec = 2 then Returns () (chdir_or_perror e (p_vec ! 1) p)
         else Returns () (emit [Puts ''ERROR: usage: cd <dir>''] p))
      else Returns () p)"

function eval_builtin_loop :: "os_env \<Rightarrow> string list \<Rightarrow> globals \<Rightarrow> nat \<Rightarrow> proc \<Rightarrow> unit outcome" where
  "eval_builtin_loop e p_vec g i p =
     (if i < NUM_BUILTINS then
        (if global_builtin_idxs g ! i \<noteq> - 1 then
           and_then (eval_builtin e p_vec i p) (\<lambda>_ q. eval_builtin_loop e p_vec g (i + 1) q)
         else eval_builtin_loop e p_vec g (i + 1) p)
      else Returns () p)"
  by pat_completeness auto
termination
  by (relation "measure (\<lambda>(e, p_vec, g, i, p). NUM_BUILTINS - i)") auto

definition eval_builtin_cmds :: "os_env \<Rightarrow> string list \<Rightarrow> globals \<Rightarrow> proc \<Rightarrow> unit outcome" where
  "eval_builtin_cmds e p_vec g p = eval_builtin_loop e p_vec g 0 p"

subsection \<open>The launcher\<close>

text \<open>The array \<^verbatim>\<open>fd\<close> is a list (NULL is the empty list); a slot outside it is a fault.\<close>

definition fd_at :: "int list \<Rightarrow> int \<Rightarrow> int option" where
  "fd_at fd i = (if 0 \<le> i \<and> i < int (length fd) then Some (fd ! nat i) else None)"

text \<open>
  A file redirect in the child:
  \<^verbatim>\<open>FILE * p = fopen(path, mode); fclose(std); dup(fileno(p)); if (p) fclose(p);\<close>
  When \<^verbatim>\<open>fopen\<close> fails, \<^verbatim>\<open>fileno(NULL)\<close> faults.
\<close>

definition redirect :: "os_env \<Rightarrow> string \<Rightarrow> string \<Rightarrow> int \<Rightarrow> proc \<Rightarrow> unit outcome" where
  "redirect e path mode std p =
     (if fopen_ok e path then
        Returns () (emit [Redirect_open path mode, Fclose_std std, Dup_file, Fclose_file] p)
      else Stops (emit [Redirect_open path mode, Fclose_std std, Fault] p))"

text \<open>\<^verbatim>\<open>dup2(fd[i], std)\<close>\<close>

definition dup2_slot :: "int list \<Rightarrow> int \<Rightarrow> int \<Rightarrow> proc \<Rightarrow> unit outcome" where
  "dup2_slot fd i std p =
     (case fd_at fd i of
        Some d \<Rightarrow> Returns () (emit [Dup2 d std] p)
      | None \<Rightarrow> Stops (emit [Fault] p))"

text \<open>\<^verbatim>\<open>for (int i = ...; i < n; i++) close(fd[i]);\<close>\<close>

function close_loop :: "int list \<Rightarrow> int \<Rightarrow> int \<Rightarrow> proc \<Rightarrow> unit outcome" where
  "close_loop fd i n p =
     (if i < n then
        (case fd_at fd i of
           Some d \<Rightarrow> close_loop fd (i + 1) n (emit [Close d] p)
         | None \<Rightarrow> Stops (emit [Fault] p))
      else Returns () p)"
  by pat_completeness auto
termination
  by (relation "measure (\<lambda>(fd, i, n, p). nat (n - i))") auto

text \<open>
  The branch \<^verbatim>\<open>case child:\<close> of \<^verbatim>\<open>launch_process\<close>. It never returns (so its outcome
  has any type of value): it ends in \<^verbatim>\<open>execvp\<close>, and when that fails in
  \<^verbatim>\<open>exit(EXIT_FAILURE)\<close>. A NULL \<^verbatim>\<open>argv\<close> faults.
\<close>

definition launch_child ::
  "os_env \<Rightarrow> globals \<Rightarrow> command_t \<Rightarrow> int \<Rightarrow> int list \<Rightarrow> int \<Rightarrow> proc \<Rightarrow> 'a outcome" where
  "launch_child e g p_command options fd idx p =
     and_then (case dest p_command of
                 Some d \<Rightarrow> redirect e d ''w'' STDOUT_FILENO p
               | None \<Rightarrow> Returns () p) (\<lambda>_ p1.
     and_then (if options AND PIPE_OUT \<noteq> 0 then dup2_slot fd (idx * 2 + 1) STDOUT_FILENO p1
               else Returns () p1) (\<lambda>_ p2.
     and_then (case src p_command of
                 Some s \<Rightarrow> redirect e s ''r'' STDIN_FILENO p2
               | None \<Rightarrow> Returns () p2) (\<lambda>_ p3.
     and_then (if options AND PIPE_IN \<noteq> 0 then dup2_slot fd (idx * 2 - 2) STDIN_FILENO p3
               else Returns () p3) (\<lambda>_ p4.
     and_then (close_loop fd 0 (global_num_pipes g * 2) p4) (\<lambda>_ p5.
       (case argv p_command of
          None \<Rightarrow> Stops (emit [Fault] p5)
        | Some a \<Rightarrow>
            (case a of
               [] \<Rightarrow> Stops (emit [Fault] p5)
             | a0 # _ \<Rightarrow>
                 (if execvp_ok e then Stops (emit [Execvp a0 a] p5)
                  else Stops (emit [Execvp a0 a, Perror ''ERROR: exec'', Exit EXIT_FAILURE] p5)))))))))"

text \<open>
  \<^verbatim>\<open>launch_process\<close>, in the process where its \<^verbatim>\<open>fork\<close> (the \<open>k\<close>-th of the launch) returns
  \<open>fork_ret e k\<close>: 0 in the child, -1 when it failed, the child's process id otherwise.
\<close>

definition launch_process ::
  "os_env \<Rightarrow> globals \<Rightarrow> nat \<Rightarrow> command_t \<Rightarrow> int \<Rightarrow> int list \<Rightarrow> int \<Rightarrow> proc \<Rightarrow> int outcome" where
  "launch_process e g k p_command options fd idx p =
     (let pid = fork_ret e k; p0 = emit [Fork pid] p in
      if pid = 0 then launch_child e g p_command options fd idx p0
      else if pid = - 1 then Returns (- 1) (emit [Perror ''ERROR: fork''] p0)
      else Returns pid p0)"

text \<open>\<^verbatim>\<open>for (idx = 0; idx < num_commands; idx += 1) pipe(&fd[2 * idx]);\<close>\<close>

definition pipe_events :: "nat \<Rightarrow> event list" where
  "pipe_events num_commands = map (\<lambda>idx. Pipe (2 * idx)) [0..<num_commands]"

text \<open>
  The loop over the middle stages of \<^verbatim>\<open>launch_process_chain\<close>, from \<open>idx\<close> on; it returns
  \<open>idx\<close> and the array \<^verbatim>\<open>pids\<close> as the loop leaves them.
\<close>

function launch_middle ::
  "os_env \<Rightarrow> globals \<Rightarrow> command_t list \<Rightarrow> int list \<Rightarrow> nat \<Rightarrow> int list \<Rightarrow> proc
     \<Rightarrow> (nat \<times> int list) outcome" where
  "launch_middle e g commands fd idx pids p =
     (if int idx < int (length commands) - 1 then
        and_then (launch_process e g idx (commands ! idx) (PIPE_OUT OR PIPE_IN) fd (int idx) p)
          (\<lambda>pid q. launch_middle e g commands fd (idx + 1) (pids[idx := pid]) q)
      else Returns (idx, pids) p)"
  by pat_completeness auto
termination
  by (relation "measure (\<lambda>(e, g, commands, fd, idx, pids, p). length commands - idx)") auto

text \<open>The loop that waits for the stages: \<^verbatim>\<open>if (pids[idx]) waitpid(pids[idx], ...)\<close>.\<close>

definition wait_events :: "int list \<Rightarrow> event list" where
  "wait_events pids = map Waitpid (filter (\<lambda>pid. pid \<noteq> 0) pids)"

text \<open>
  \<^verbatim>\<open>launch_process_chain\<close>. With fewer than two commands the last launch reads
  \<^verbatim>\<open>commands[idx]\<close> beyond the vector: a fault.
\<close>

definition launch_process_chain :: "os_env \<Rightarrow> globals \<Rightarrow> command_t list \<Rightarrow> proc \<Rightarrow> globals outcome" where
  "launch_process_chain e g commands p =
     (let num_commands = length commands;
          g1 = g\<lparr>global_num_pipes := int num_commands\<rparr>;
          fd = map (pipe_fd e) [0..<2 * num_commands];
          p1 = emit (pipe_events num_commands) p
      in if num_commands = 0 then Stops (emit [Fault] p1)
         else
           and_then (launch_process e g1 0 (commands ! 0) PIPE_OUT fd 0 p1) (\<lambda>pid0 p2.
           and_then (launch_middle e g1 commands fd 1 ((replicate num_commands 0)[0 := pid0]) p2)
             (\<lambda>(idx, pids) p3.
                if num_commands \<le> idx then Stops (emit [Fault] p3)
                else
                  and_then (launch_process e g1 idx (commands ! idx) PIPE_IN fd (int idx) p3)
                    (\<lambda>pid p4.
                  and_then (close_loop fd 0 (int num_commands * 2) p4) (\<lambda>_ p5.
                    if \<not> global_bkg_proc g1 then
                      Returns g1 (emit (wait_events (pids[idx := pid])) p5)
                    else Returns (g1\<lparr>global_bkg_proc := False\<rparr>) p5)))))"

subsection \<open>\<^verbatim>\<open>shell_eval\<close> and one turn of the loop of \<^verbatim>\<open>main\<close>\<close>

definition shell_eval :: "os_env \<Rightarrow> string list \<Rightarrow> globals \<Rightarrow> proc \<Rightarrow> globals outcome" where
  "shell_eval e p_vec g p =
     (if length p_vec = 0 then Returns g p
      else if parse_builtin_cmds g \<noteq> PARSE_ERROR \<and> global_num_builtins g \<noteq> 0 then
        and_then (eval_builtin_cmds e p_vec g p) (\<lambda>_ q. Returns g q)
      else if parse_builtin_cmds g = PARSE_ERROR then Returns g (emit [Puts PARSE_ERROR_MSG] p)
      else if global_num_commands g = 1 then
        (case parse_single_command p_vec zero_command g of
           Inl f \<Rightarrow> Stops (emit [Fault] p)
         | Inr (res, command, g1) \<Rightarrow>
             if res = PARSE_ERROR then Returns g1 (emit [Puts PARSE_ERROR_MSG] p)
             else
               and_then (launch_process e g1 0 command PIPE_NONE [] 0 p) (\<lambda>pid q.
                 if \<not> global_bkg_proc g1 then
                   (if pid \<noteq> 0 then Returns g1 (emit [Waitpid pid] q) else Returns g1 q)
                 else Returns (g1\<lparr>global_bkg_proc := False\<rparr>) q))
      else
        (case parse_multiple_commands p_vec [] g of
           Inl f \<Rightarrow> Stops (emit [Fault] p)
         | Inr (res, command_vec, g1) \<Rightarrow>
             if res = PARSE_ERROR then Returns g1 (emit [Puts PARSE_ERROR_MSG] p)
             else launch_process_chain e g1 command_vec p))"

text \<open>
  One turn of the loop of \<^verbatim>\<open>main\<close>: \<^verbatim>\<open>shell_read\<close>, \<^verbatim>\<open>shell_eval\<close>, and \<^verbatim>\<open>vec_clear\<close>,
  after which the token vector is empty again.
\<close>

definition main_turn :: "os_env \<Rightarrow> lexeme list option \<Rightarrow> globals \<Rightarrow> proc \<Rightarrow> globals outcome" where
  "main_turn e line g p =
     and_then (shell_read line g p) (\<lambda>(p_vec, g1) q. shell_eval e p_vec g1 q)"

subsection \<open>Reading a process's events\<close>

text \<open>
  The process an outcome leaves, the events a call added to those of the process \<open>p\<close> it
  started from, and whether the process stopped in the call; the descriptors a list of
  events duplicates onto the descriptor \<open>std\<close>, in order; the events before the first
  \<^verbatim>\<open>execvp\<close>; and what a \<^verbatim>\<open>fork\<close> that returned \<open>r \<noteq> 0\<close> adds to the events of the parent
  in \<^verbatim>\<open>launch_process\<close>.
\<close>

definition outcome_proc :: "'a outcome \<Rightarrow> proc" where
  "outcome_proc r = (case r of Returns x q \<Rightarrow> q | Stops q \<Rightarrow> q)"

definition new_events :: "proc \<Rightarrow> 'a outcome \<Rightarrow> event list" where
  "new_events p r = drop (length (events p)) (events (outcome_proc r))"

definition stops :: "'a outcome \<Rightarrow> bool" where
  "stops r = (case r of Returns x q \<Rightarrow> False | Stops q \<Rightarrow> True)"

definition is_execvp :: "event \<Rightarrow> bool" where
  "is_execvp ev = (case ev of Execvp f a \<Rightarrow> True | _ \<Rightarrow> False)"

definition dup2_onto :: "int \<Rightarrow> event list \<Rightarrow> int list" where
  "dup2_onto std evs =
     concat (map (\<lambda>ev. case ev of Dup2 d s \<Rightarrow> (if s = std then [d] else []) | _ \<Rightarrow> []) evs)"

definition before_exec :: "event list \<Rightarrow> event list" where
  "before_exec evs = takeWhile (\<lambda>ev. \<not> is_execvp ev) evs"

definition forked :: "int \<Rightarrow> event list" where
  "forked r = (if r = - 1 then [Fork r, Perror ''ERROR: fork''] else [Fork r])"

subsection \<open>Waiting for children\<close>

text \<open>
  What the operating system does with \<^verbatim>\<open>waitpid(pid, &status, WUNTRACED | WCONTINUED)\<close>,
  called without \<^verbatim>\<open>WNOHANG\<close>, for the children the calling process has: it selects every
  child when \<open>pid\<close> is -1 and the child with that process id when \<open>pid\<close> is positive; with
  no child selected it fails at once, with a selected child that has terminated it returns
  at once, and otherwise it blocks until a selected child changes state.
\<close>

datatype child_state = Running | Terminated

definition waitpid_blocks :: "(int \<times> child_state) list \<Rightarrow> int \<Rightarrow> bool" where
  "waitpid_blocks children pid =
     (let selected = filter (\<lambda>c. pid = - 1 \<or> fst c = pid) children
      in selected \<noteq> [] \<and> list_all (\<lambda>c. snd c = Running) selected)"

subsection \<open>The result of a parse\<close>

text \<open>
  What a parse hands to the launcher: the result code, the command or commands, and the
  background flag.
\<close>

definition parsed :: "fault + (parse_t \<times> 'c \<times> globals) \<Rightarrow> fault + (parse_t \<times> 'c \<times> bool)" where
  "parsed x = (case x of Inl f \<Rightarrow> Inl f | Inr (r, c, h) \<Rightarrow> Inr (r, c, global_bkg_proc h))"

section \<open>The parsers\<close>

text \<open>
  The equations of the loops unfold without end when they rewrite under a binder; they are
  used only where named.
\<close>

declare parse_single_loop.simps [simp del] parse_multiple_loop.simps [simp del]
  seek_first_end.simps [simp del] pipe_ahead.simps [simp del] close_loop.simps [simp del]
  launch_middle.simps [simp del] eval_builtin_loop.simps [simp del]

lemmas parser_simps = parse_single_command_def parse_multiple_commands_def argv_if_unset_def
  slice_argv_from_vec_def size_t_of_def first_char_def zero_command_def
  parse_single_loop.simps parse_multiple_loop.simps seek_first_end.simps pipe_ahead.simps

subsection \<open>Slices\<close>


subsection \<open>Lines of words only\<close>

lemma parse_single_loop_end [simp]:
  "length p_vec \<le> idx \<Longrightarrow> parse_single_loop p_vec idx seen c bkg = Inr (PARSE_SUCCESS, c, bkg)"
  by (subst parse_single_loop.simps) simp








subsection \<open>Lines the parsers accept\<close>

text \<open>
  Claim C3. The first pipe of a line is found by the loop that seeks the end of the first
  command, which checks neither what stands before the pipe nor what follows it. The lines
  \<^verbatim>\<open>a |\<close> and \<^verbatim>\<open>a | &\<close> parse successfully, to the single command \<^verbatim>\<open>a\<close>, although no word
  follows the pipe and, in the second, an operator follows it.
\<close>

theorem C3_first_pipe_unchecked:
  "parse_multiple_commands [''a'', ''|''] [] g
     = Inr (PARSE_SUCCESS,
            [\<lparr>argv = Some [Some ''a'', None], dest = None, src = None, is_bkg_proc = False\<rparr>], g)
   \<and> parse_multiple_commands [''a'', ''|'', ''&''] [] g
     = Inr (PARSE_SUCCESS,
            [\<lparr>argv = Some [Some ''a'', None], dest = None, src = None, is_bkg_proc = False\<rparr>],
            g\<lparr>global_bkg_proc := True\<rparr>)"
  by (simp add: parser_simps)

text \<open>
  Claim C4. The line \<^verbatim>\<open>a | b > out\<close> parses to two commands, the second with the output
  redirect \<^verbatim>\<open>out\<close>, and \<^verbatim>\<open>a > out | b\<close> is refused. But the scan for a pipe behind a
  \<^verbatim>\<open>>\<close> stops one token short of the end of the line, and the check of the token after
  \<^verbatim>\<open>>\<close> does not refuse a pipe: the line \<^verbatim>\<open>a | b > |\<close> parses successfully, with the pipe
  as the output file of \<^verbatim>\<open>b\<close>.
\<close>

theorem C4_pipe_after_output_redirect_accepted:
  "parse_multiple_commands [''a'', ''|'', ''b'', ''>'', ''out''] [] g
     = Inr (PARSE_SUCCESS,
            [\<lparr>argv = Some [Some ''a'', None], dest = None, src = None, is_bkg_proc = False\<rparr>,
             \<lparr>argv = Some [Some ''b'', None], dest = Some ''out'', src = None, is_bkg_proc = False\<rparr>],
            g)
   \<and> parse_multiple_commands [''a'', ''>'', ''out'', ''|'', ''b''] [] g = Inr (PARSE_ERROR, [], g)
   \<and> parse_multiple_commands [''a'', ''|'', ''b'', ''>'', ''|''] [] g
     = Inr (PARSE_SUCCESS,
            [\<lparr>argv = Some [Some ''a'', None], dest = None, src = None, is_bkg_proc = False\<rparr>,
             \<lparr>argv = Some [Some ''b'', None], dest = Some ''|'', src = None, is_bkg_proc = False\<rparr>],
            g)"
  by (simp add: parser_simps)

text \<open>
  Claim C5. After a \<^verbatim>\<open><\<close> in the first stage the parser takes the next token as the file
  name and skips the token after it unread, as the anticipated pipe. In the line
  \<^verbatim>\<open>a < | < b\<close> the skipped token is a \<^verbatim>\<open><\<close> that stands behind the pipe, in the second
  stage, and the line parses successfully.
\<close>

theorem C5_input_redirect_in_second_stage_accepted:
  "parse_multiple_commands [''a'', ''<'', ''|'', ''<'', ''b''] [] g
     = Inr (PARSE_SUCCESS,
            [\<lparr>argv = Some [Some ''a'', None], dest = None, src = Some ''|'', is_bkg_proc = False\<rparr>,
             \<lparr>argv = Some [Some ''b'', None], dest = None, src = None, is_bkg_proc = False\<rparr>],
            g)"
  by (simp add: parser_simps)

text \<open>
  Claim C6. A line that starts with an operator gives its command the slice that ends
  before index 0: the terminator alone, with no \<^verbatim>\<open>argv[0]\<close>. The line \<^verbatim>\<open>< in\<close> parses
  successfully as a single command with such an \<open>argv\<close>, and so does the first stage of
  the pipeline \<^verbatim>\<open>| b\<close>.
\<close>

theorem C6_empty_argv_accepted:
  "parse_single_command [''<'', ''in''] zero_command g
     = Inr (PARSE_SUCCESS,
            \<lparr>argv = Some [None], dest = None, src = Some ''in'', is_bkg_proc = False\<rparr>,
            g\<lparr>global_num_pipes := 0\<rparr>)
   \<and> parse_multiple_commands [''|'', ''b''] [] g
     = Inr (PARSE_SUCCESS,
            [\<lparr>argv = Some [None], dest = None, src = None, is_bkg_proc = False\<rparr>,
             \<lparr>argv = Some [Some ''b'', None], dest = None, src = None, is_bkg_proc = False\<rparr>],
            g)"
  by (simp add: parser_simps)

section \<open>The builtins\<close>

lemma eval_builtin_loop_end [simp]:
  "NUM_BUILTINS \<le> i \<Longrightarrow> eval_builtin_loop e p_vec g i q = Returns () q"
  by (subst eval_builtin_loop.simps) simp

lemma eval_builtin_cmds_cd:
  assumes "global_builtin_idxs g ! CMD_EXIT = - 1" and "global_builtin_idxs g ! CMD_CD \<noteq> - 1"
  shows "eval_builtin_cmds e p_vec g p = eval_builtin e p_vec CMD_CD p"
proof -
  have 1: "eval_builtin_loop e p_vec g (Suc 0) p = eval_builtin e p_vec CMD_CD p"
    using assms(2)
    by (subst eval_builtin_loop.simps)
      (simp add: NUM_BUILTINS_def CMD_CD_def and_then_def split: outcome.splits)
  show ?thesis
    unfolding eval_builtin_cmds_def using assms(1) 1
    by (subst eval_builtin_loop.simps) (simp add: NUM_BUILTINS_def CMD_EXIT_def)
qed

text \<open>
  Claim C7. Let a line be dispatched to the builtins with \<^verbatim>\<open>cd\<close> tagged and \<^verbatim>\<open>exit\<close> not.
  With two or more arguments (three or more tokens) \<^verbatim>\<open>shell_eval\<close> prints the usage error,
  leaves the working directory as it was and returns. When the \<^verbatim>\<open>chdir\<close> call fails (for
  the one argument, or for the home directory when there is none) it reports the error of
  the operating system with \<^verbatim>\<open>perror\<close>, the working directory is as it was, and
  \<^verbatim>\<open>shell_eval\<close> returns to the loop of \<^verbatim>\<open>main\<close>: the process neither exits nor faults.
\<close>

theorem C7_cd_errors_not_fatal:
  assumes "p_vec \<noteq> []" and "parse_builtin_cmds g = PARSE_SUCCESS" and "global_num_builtins g \<noteq> 0"
    and "global_builtin_idxs g ! CMD_EXIT = - 1" and "global_builtin_idxs g ! CMD_CD \<noteq> - 1"
  shows "(3 \<le> length p_vec \<longrightarrow>
            (\<exists>q. shell_eval e p_vec g p = Returns g q \<and> cwd q = cwd p
                \<and> events q = events p @ [Puts ''ERROR: usage: cd <dir>'']))
       \<and> (length p_vec = 2 \<and> chdir_to e (cwd p) (p_vec ! 1) = None \<longrightarrow>
            (\<exists>q. shell_eval e p_vec g p = Returns g q \<and> cwd q = cwd p
                \<and> events q = events p @ [Chdir (p_vec ! 1), Perror ''ERROR: cd'']))
       \<and> (\<forall>home_dir. length p_vec = 1
              \<and> (env_HOME e = Some home_dir \<or> env_HOME e = None \<and> env_pw_dir e = Some home_dir)
              \<and> chdir_to e (cwd p) home_dir = None \<longrightarrow>
            (\<exists>q. shell_eval e p_vec g p = Returns g q \<and> cwd q = cwd p
                \<and> events q = events p @ [Chdir home_dir, Perror ''ERROR: cd'']))"
proof -
  have ev: "shell_eval e p_vec g p = and_then (eval_builtin e p_vec CMD_CD p) (\<lambda>_ q. Returns g q)"
    using assms by (simp add: shell_eval_def eval_builtin_cmds_cd)
  show ?thesis
    unfolding ev
    by (auto simp: eval_builtin_def CMD_CD_def CMD_EXIT_def and_then_def chdir_or_perror_def
        emit_def)
qed

theorem C7_cd_errors_not_fatal_witness:
  "shell_eval
     \<lparr>env_HOME = None, env_pw_dir = None, chdir_to = (\<lambda>c d. None), fork_ret = (\<lambda>k. - 1),
        pipe_fd = (\<lambda>k. 0), fopen_ok = (\<lambda>f. False), execvp_ok = False\<rparr>
     [''cd'', ''one'', ''two'']
     \<lparr>global_num_pipes = 0, global_num_commands = 1, global_bkg_proc = False,
        global_builtin_idxs = [- 1, 0], global_num_builtins = 1\<rparr>
     \<lparr>cwd = ''/home'', events = []\<rparr>
   = Returns
       \<lparr>global_num_pipes = 0, global_num_commands = 1, global_bkg_proc = False,
          global_builtin_idxs = [- 1, 0], global_num_builtins = 1\<rparr>
       \<lparr>cwd = ''/home'', events = [Puts ''ERROR: usage: cd <dir>'']\<rparr>
   \<and> shell_eval
     \<lparr>env_HOME = None, env_pw_dir = None, chdir_to = (\<lambda>c d. None), fork_ret = (\<lambda>k. - 1),
        pipe_fd = (\<lambda>k. 0), fopen_ok = (\<lambda>f. False), execvp_ok = False\<rparr>
     [''cd'', ''nowhere'']
     \<lparr>global_num_pipes = 0, global_num_commands = 1, global_bkg_proc = False,
        global_builtin_idxs = [- 1, 0], global_num_builtins = 1\<rparr>
     \<lparr>cwd = ''/home'', events = []\<rparr>
   = Returns
       \<lparr>global_num_pipes = 0, global_num_commands = 1, global_bkg_proc = False,
          global_builtin_idxs = [- 1, 0], global_num_builtins = 1\<rparr>
       \<lparr>cwd = ''/home'', events = [Chdir ''nowhere'', Perror ''ERROR: cd'']\<rparr>"
  using C7_cd_errors_not_fatal
    [of "[''cd'', ''one'', ''two'']"
        "\<lparr>global_num_pipes = 0, global_num_commands = 1, global_bkg_proc = False,
           global_builtin_idxs = [- 1, 0], global_num_builtins = 1\<rparr>"
        "\<lparr>env_HOME = None, env_pw_dir = None, chdir_to = (\<lambda>c d. None), fork_ret = (\<lambda>k. - 1),
           pipe_fd = (\<lambda>k. 0), fopen_ok = (\<lambda>f. False), execvp_ok = False\<rparr>"
        "\<lparr>cwd = ''/home'', events = []\<rparr>"]
    C7_cd_errors_not_fatal
    [of "[''cd'', ''nowhere'']"
        "\<lparr>global_num_pipes = 0, global_num_commands = 1, global_bkg_proc = False,
           global_builtin_idxs = [- 1, 0], global_num_builtins = 1\<rparr>"
        "\<lparr>env_HOME = None, env_pw_dir = None, chdir_to = (\<lambda>c d. None), fork_ret = (\<lambda>k. - 1),
           pipe_fd = (\<lambda>k. 0), fopen_ok = (\<lambda>f. False), execvp_ok = False\<rparr>"
        "\<lparr>cwd = ''/home'', events = []\<rparr>"]
  by (auto simp: parse_builtin_cmds_def NUM_BUILTINS_def CMD_EXIT_def CMD_CD_def numeral_2_eq_2)

section \<open>The launcher\<close>

subsection \<open>Events of the child and of the parent\<close>

lemma close_loop_from:
  "i \<le> length fd \<Longrightarrow>
     close_loop fd (int i) (int (length fd)) p = Returns () (emit (map Close (drop i fd)) p)"
proof (induction "length fd - i" arbitrary: i p)
  case 0
  then show ?case
    by (subst close_loop.simps) (simp add: emit_def)
next
  case (Suc n)
  then have lt: "i < length fd" by simp
  have "n = length fd - (i + 1)" using Suc.hyps(2) by simp
  from Suc.hyps(1) [OF this, of "emit [Close (fd ! i)] p"] lt
  have "close_loop fd (int (i + 1)) (int (length fd)) (emit [Close (fd ! i)] p)
          = Returns () (emit (map Close (drop (i + 1) fd)) (emit [Close (fd ! i)] p))"
    by simp
  moreover have "drop i fd = fd ! i # drop (i + 1) fd"
    using lt by (simp add: Cons_nth_drop_Suc)
  ultimately show ?case
    using lt
    by (subst close_loop.simps) (simp add: fd_at_def emit_def add.commute)
qed

lemma close_loop_all:
  "n = int (length fd) \<Longrightarrow> close_loop fd 0 n p = Returns () (emit (map Close fd) p)"
  using close_loop_from [of 0 fd p] by simp

lemma and_then_assoc:
  "and_then (and_then r f) h = and_then r (\<lambda>x q. and_then (f x q) h)"
  by (simp add: and_then_def split: outcome.splits)

lemma and_then_Stops [simp]: "and_then (Stops q) f = Stops q"
  by (simp add: and_then_def)

lemma and_then_Returns [simp]: "and_then (Returns x q) f = f x q"
  by (simp add: and_then_def)

lemma and_then_launch_child:
  "and_then (launch_child e g c opts fd idx p) f = launch_child e g c opts fd idx p"
  unfolding launch_child_def and_then_assoc
  by (simp only: option.case_distrib [of "\<lambda>r. and_then r f"] list.case_distrib [of "\<lambda>r. and_then r f"]
      if_distrib [of "\<lambda>r. and_then r f"] and_then_Stops)

lemma emit_Nil [simp]: "emit [] p = p"
  by (simp add: emit_def)

lemma emit_emit [simp]: "emit es (emit es' p) = emit (es' @ es) p"
  by (simp add: emit_def)

lemma events_emit [simp]: "events (emit es p) = events p @ es"
  by (simp add: emit_def)

lemma new_events_Stops_emit [simp]: "new_events p (Stops (emit es p)) = es"
  by (simp add: new_events_def outcome_proc_def)

lemma is_execvp_simps [simp]:
  "is_execvp (Execvp f a) = True" "is_execvp (Puts s) = False" "is_execvp (Perror s) = False"
  "is_execvp (Chdir s) = False" "is_execvp (Pipe k) = False" "is_execvp (Fork r) = False"
  "is_execvp (Redirect_open s m) = False" "is_execvp (Fclose_std d) = False"
  "is_execvp Dup_file = False" "is_execvp Fclose_file = False" "is_execvp (Dup2 d d') = False"
  "is_execvp (Close d) = False" "is_execvp (Waitpid r) = False" "is_execvp (Exit r) = False"
  "is_execvp Fault = False"
  by (simp_all add: is_execvp_def)

lemma before_exec_simps [simp]:
  "before_exec [] = []"
  "before_exec (ev # es) = (if is_execvp ev then [] else ev # before_exec es)"
  by (simp_all add: before_exec_def)

lemma before_exec_Close [simp]: "before_exec (map Close fd @ es) = map Close fd @ before_exec es"
  by (induction fd) simp_all

lemma dup2_onto_simps [simp]:
  "dup2_onto std [] = []"
  "dup2_onto std (ev # es)
     = (case ev of Dup2 d s \<Rightarrow> (if s = std then [d] else []) | _ \<Rightarrow> []) @ dup2_onto std es"
  by (simp_all add: dup2_onto_def)

lemma dup2_onto_append [simp]: "dup2_onto std (xs @ ys) = dup2_onto std xs @ dup2_onto std ys"
  by (simp add: dup2_onto_def)

lemma dup2_onto_Close [simp]: "dup2_onto std (map Close fd) = []"
  by (induction fd) simp_all

lemma list_ex_execvp_Close [simp]: "list_ex is_execvp (map Close fd) = False"
  by (induction fd) simp_all

lemma outcome_proc_simps [simp]:
  "outcome_proc (Stops q) = q" "outcome_proc (Returns x q) = q"
  by (simp_all add: outcome_proc_def)

lemma stops_simps [simp]: "stops (Stops q) = True" "stops (Returns x q) = False"
  by (simp_all add: stops_def)

text \<open>
  The events of the child, by how far it gets: the redirect of its output, the pipe onto its
  output, the redirect of its input, the pipe onto its input, the closes, \<^verbatim>\<open>execvp\<close>.
\<close>

lemma launch_child_cases:
  fixes r :: "'a outcome"
  assumes np: "global_num_pipes g * 2 = int (length fd)"
    and out: "opts AND PIPE_OUT \<noteq> 0 \<Longrightarrow> 0 \<le> idx * 2 + 1 \<and> idx * 2 + 1 < int (length fd)"
    and inn: "opts AND PIPE_IN \<noteq> 0 \<Longrightarrow> 0 \<le> idx * 2 - 2 \<and> idx * 2 - 2 < int (length fd)"
    and r: "r = launch_child e g c opts fd idx p"
    and outD: "outD = (case dest c of None \<Rightarrow> []
                 | Some x \<Rightarrow> [Redirect_open x ''w'', Fclose_std STDOUT_FILENO, Dup_file, Fclose_file])"
    and inS: "inS = (case src c of None \<Rightarrow> []
                 | Some x \<Rightarrow> [Redirect_open x ''r'', Fclose_std STDIN_FILENO, Dup_file, Fclose_file])"
    and outP: "outP = (if opts AND PIPE_OUT \<noteq> 0 then [Dup2 (fd ! nat (idx * 2 + 1)) STDOUT_FILENO] else [])"
    and inP: "inP = (if opts AND PIPE_IN \<noteq> 0 then [Dup2 (fd ! nat (idx * 2 - 2)) STDIN_FILENO] else [])"
  shows "(\<exists>a0 as. r = Stops (emit (outD @ outP @ inS @ inP @ map Close fd @ [Execvp a0 (a0 # as)]) p))
       \<or> (\<exists>a0 as. r = Stops (emit (outD @ outP @ inS @ inP @ map Close fd
                                     @ [Execvp a0 (a0 # as), Perror ''ERROR: exec'', Exit EXIT_FAILURE]) p))
       \<or> r = Stops (emit (outD @ outP @ inS @ inP @ map Close fd @ [Fault]) p)
       \<or> (\<exists>x. r = Stops (emit (outD @ outP @ [Redirect_open x ''r'', Fclose_std STDIN_FILENO, Fault]) p))
       \<or> (\<exists>x. r = Stops (emit [Redirect_open x ''w'', Fclose_std STDOUT_FILENO, Fault] p))"
proof -
  have cl: "close_loop fd 0 (global_num_pipes g * 2) q = Returns () (emit (map Close fd) q)" for q
    by (rule close_loop_all) (rule np)
  have o: "(if opts AND PIPE_OUT \<noteq> 0 then dup2_slot fd (idx * 2 + 1) STDOUT_FILENO q
            else Returns () q) = Returns () (emit outP q)" for q
    using out by (simp add: outP dup2_slot_def fd_at_def)
  have i: "(if opts AND PIPE_IN \<noteq> 0 then dup2_slot fd (idx * 2 - 2) STDIN_FILENO q
            else Returns () q) = Returns () (emit inP q)" for q
    using inn by (simp add: inP dup2_slot_def fd_at_def)
  consider (dest_fail) x where "dest c = Some x" "\<not> fopen_ok e x"
    | (src_fail) x where "\<forall>y. dest c = Some y \<longrightarrow> fopen_ok e y" "src c = Some x" "\<not> fopen_ok e x"
    | (ok) "\<forall>y. dest c = Some y \<longrightarrow> fopen_ok e y" "\<forall>y. src c = Some y \<longrightarrow> fopen_ok e y"
    by (cases "dest c"; cases "src c") auto
  then show ?thesis
  proof cases
    case dest_fail
    then have "r = Stops (emit [Redirect_open x ''w'', Fclose_std STDOUT_FILENO, Fault] p)"
      unfolding r launch_child_def by (simp add: redirect_def)
    then show ?thesis by blast
  next
    case src_fail
    have d: "(case dest c of Some d \<Rightarrow> redirect e d ''w'' STDOUT_FILENO p | None \<Rightarrow> Returns () p)
        = Returns () (emit outD p)"
      using src_fail(1) by (simp add: outD redirect_def split: option.splits)
    have "r = Stops (emit (outD @ outP @ [Redirect_open x ''r'', Fclose_std STDIN_FILENO, Fault]) p)"
      unfolding r launch_child_def d and_then_Returns o using src_fail(2,3)
      by (simp add: redirect_def)
    then show ?thesis by blast
  next
    case ok
    have d: "(case dest c of Some d \<Rightarrow> redirect e d ''w'' STDOUT_FILENO p | None \<Rightarrow> Returns () p)
        = Returns () (emit outD p)"
      using ok(1) by (simp add: outD redirect_def split: option.splits)
    have s: "(case src c of Some s \<Rightarrow> redirect e s ''r'' STDIN_FILENO q | None \<Rightarrow> Returns () q)
        = Returns () (emit inS q)" for q
      using ok(2) by (simp add: inS redirect_def split: option.splits)
    have "r = (case argv c of
                 None \<Rightarrow> Stops (emit (outD @ outP @ inS @ inP @ map Close fd @ [Fault]) p)
               | Some a \<Rightarrow>
                   (case a of
                      [] \<Rightarrow> Stops (emit (outD @ outP @ inS @ inP @ map Close fd @ [Fault]) p)
                    | a0 # as \<Rightarrow>
                        (if execvp_ok e
                         then Stops (emit (outD @ outP @ inS @ inP @ map Close fd @ [Execvp a0 (a0 # as)]) p)
                         else Stops (emit (outD @ outP @ inS @ inP @ map Close fd
                                @ [Execvp a0 (a0 # as), Perror ''ERROR: exec'', Exit EXIT_FAILURE]) p))))"
      unfolding r launch_child_def d and_then_Returns o s i cl
      by (simp split: option.splits list.splits)
    then show ?thesis
      by (cases "argv c"; cases "the (argv c)"; cases "execvp_ok e") auto
  qed
qed


lemma before_exec_append:
  "\<not> list_ex is_execvp xs \<Longrightarrow> before_exec (xs @ ys) = xs @ before_exec ys"
  by (induction xs) simp_all

lemma launch_child_wiring:
  fixes r :: "'a outcome"
  assumes "global_num_pipes g * 2 = int (length fd)"
    and "opts AND PIPE_OUT \<noteq> 0 \<Longrightarrow> 0 \<le> idx * 2 + 1 \<and> idx * 2 + 1 < int (length fd)"
    and "opts AND PIPE_IN \<noteq> 0 \<Longrightarrow> 0 \<le> idx * 2 - 2 \<and> idx * 2 - 2 < int (length fd)"
    and "r = launch_child e g c opts fd idx p"
  shows "stops r \<and> events (outcome_proc r) = events p @ new_events p r
     \<and> (opts AND PIPE_IN = 0 \<longrightarrow> dup2_onto STDIN_FILENO (new_events p r) = [])
     \<and> (opts AND PIPE_OUT = 0 \<longrightarrow> dup2_onto STDOUT_FILENO (new_events p r) = [])
     \<and> (list_ex is_execvp (new_events p r) \<longrightarrow>
          set fd \<subseteq> {d. Close d \<in> set (before_exec (new_events p r))}
          \<and> dup2_onto STDIN_FILENO (before_exec (new_events p r))
              = (if opts AND PIPE_IN \<noteq> 0 then [fd ! nat (idx * 2 - 2)] else [])
          \<and> dup2_onto STDOUT_FILENO (before_exec (new_events p r))
              = (if opts AND PIPE_OUT \<noteq> 0 then [fd ! nat (idx * 2 + 1)] else [])
          \<and> before_exec (new_events p r)
              = (case dest c of None \<Rightarrow> []
                 | Some x \<Rightarrow> [Redirect_open x ''w'', Fclose_std STDOUT_FILENO, Dup_file, Fclose_file])
                @ (if opts AND PIPE_OUT \<noteq> 0 then [Dup2 (fd ! nat (idx * 2 + 1)) STDOUT_FILENO] else [])
                @ (case src c of None \<Rightarrow> []
                   | Some x \<Rightarrow> [Redirect_open x ''r'', Fclose_std STDIN_FILENO, Dup_file, Fclose_file])
                @ (if opts AND PIPE_IN \<noteq> 0 then [Dup2 (fd ! nat (idx * 2 - 2)) STDIN_FILENO] else [])
                @ map Close fd)"
proof -
  define outD where "outD = (case dest c of None \<Rightarrow> []
                 | Some x \<Rightarrow> [Redirect_open x ''w'', Fclose_std STDOUT_FILENO, Dup_file, Fclose_file])"
  define inS where "inS = (case src c of None \<Rightarrow> []
                 | Some x \<Rightarrow> [Redirect_open x ''r'', Fclose_std STDIN_FILENO, Dup_file, Fclose_file])"
  define outP where
    "outP = (if opts AND PIPE_OUT \<noteq> 0 then [Dup2 (fd ! nat (idx * 2 + 1)) STDOUT_FILENO] else [])"
  define inP where
    "inP = (if opts AND PIPE_IN \<noteq> 0 then [Dup2 (fd ! nat (idx * 2 - 2)) STDIN_FILENO] else [])"
  have std: "STDIN_FILENO \<noteq> STDOUT_FILENO" by (simp add: STDIN_FILENO_def STDOUT_FILENO_def)
  have nx: "\<not> list_ex is_execvp outD" "\<not> list_ex is_execvp inS"
    "\<not> list_ex is_execvp outP" "\<not> list_ex is_execvp inP"
    by (simp_all add: outD_def inS_def outP_def inP_def split: option.splits)
  have d_in: "dup2_onto STDIN_FILENO outD = []" "dup2_onto STDIN_FILENO inS = []"
    "dup2_onto STDIN_FILENO outP = []"
    "dup2_onto STDIN_FILENO inP = (if opts AND PIPE_IN \<noteq> 0 then [fd ! nat (idx * 2 - 2)] else [])"
    using std by (auto simp: outD_def inS_def outP_def inP_def split: option.splits)
  have d_out: "dup2_onto STDOUT_FILENO outD = []" "dup2_onto STDOUT_FILENO inS = []"
    "dup2_onto STDOUT_FILENO inP = []"
    "dup2_onto STDOUT_FILENO outP = (if opts AND PIPE_OUT \<noteq> 0 then [fd ! nat (idx * 2 + 1)] else [])"
    using std by (auto simp: outD_def inS_def outP_def inP_def split: option.splits)
  have be: "before_exec (outD @ outP @ inS @ inP @ map Close fd @ es)
      = outD @ outP @ inS @ inP @ map Close fd @ before_exec es" for es
    using nx by (simp add: before_exec_append)
  have be2: "before_exec (outD @ outP @ es) = outD @ outP @ before_exec es" for es
    using nx by (simp add: before_exec_append)
  have ex: "list_ex is_execvp (outD @ outP @ inS @ inP @ map Close fd @ es) = list_ex is_execvp es"
    for es
    using nx by (simp add: list_ex_append)
  have ex2: "list_ex is_execvp (outD @ outP @ es) = list_ex is_execvp es" for es
    using nx by (simp add: list_ex_append)
  from launch_child_cases [OF assms outD_def inS_def outP_def inP_def]
  consider (run) a0 as es where
      "r = Stops (emit (outD @ outP @ inS @ inP @ map Close fd @ Execvp a0 (a0 # as) # es) p)"
      "\<forall>std. dup2_onto std es = []"
    | (fault) "r = Stops (emit (outD @ outP @ inS @ inP @ map Close fd @ [Fault]) p)"
    | (src_fail) x where
      "r = Stops (emit (outD @ outP @ [Redirect_open x ''r'', Fclose_std STDIN_FILENO, Fault]) p)"
    | (dest_fail) x where
      "r = Stops (emit [Redirect_open x ''w'', Fclose_std STDOUT_FILENO, Fault] p)"
    by fastforce
  then have "stops r \<and> events (outcome_proc r) = events p @ new_events p r
     \<and> (opts AND PIPE_IN = 0 \<longrightarrow> dup2_onto STDIN_FILENO (new_events p r) = [])
     \<and> (opts AND PIPE_OUT = 0 \<longrightarrow> dup2_onto STDOUT_FILENO (new_events p r) = [])
     \<and> (list_ex is_execvp (new_events p r) \<longrightarrow>
          set fd \<subseteq> {d. Close d \<in> set (before_exec (new_events p r))}
          \<and> dup2_onto STDIN_FILENO (before_exec (new_events p r))
              = (if opts AND PIPE_IN \<noteq> 0 then [fd ! nat (idx * 2 - 2)] else [])
          \<and> dup2_onto STDOUT_FILENO (before_exec (new_events p r))
              = (if opts AND PIPE_OUT \<noteq> 0 then [fd ! nat (idx * 2 + 1)] else [])
          \<and> before_exec (new_events p r) = outD @ outP @ inS @ inP @ map Close fd)"
  proof cases
    case run
    show ?thesis
      unfolding run(1) new_events_Stops_emit be ex
      using run(2) by (auto simp: d_in d_out)
  next
    case fault
    show ?thesis
      unfolding fault new_events_Stops_emit ex
      by (simp add: d_in d_out)
  next
    case src_fail
    show ?thesis
      unfolding src_fail new_events_Stops_emit ex2
      by (simp add: d_in d_out)
  next
    case dest_fail
    show ?thesis
      unfolding dest_fail new_events_Stops_emit
      by simp
  qed
  then show ?thesis
    unfolding outD_def inS_def outP_def inP_def .
qed

lemma launch_process_parent:
  "fork_ret e k \<noteq> 0 \<Longrightarrow>
     launch_process e g k c opts fd idx p = Returns (fork_ret e k) (emit (forked (fork_ret e k)) p)"
  by (simp add: launch_process_def forked_def Let_def)

lemma launch_process_child:
  "fork_ret e k = 0 \<Longrightarrow>
     launch_process e g k c opts fd idx p = launch_child e g c opts fd idx (emit [Fork 0] p)"
  by (simp add: launch_process_def Let_def)

lemma launch_middle_parent:
  assumes "\<forall>j<i. fork_ret e j \<noteq> 0" and "i \<le> length cmds - 1"
  shows "idx \<le> i \<Longrightarrow> length zs = length cmds - idx \<Longrightarrow>
     launch_middle e g cmds fd idx (map (fork_ret e) [0..<idx] @ zs) p
       = launch_middle e g cmds fd i (map (fork_ret e) [0..<i] @ drop (i - idx) zs)
           (emit (concat (map (\<lambda>j. forked (fork_ret e j)) [idx..<i])) p)"
proof (induction "i - idx" arbitrary: idx zs p)
  case 0
  then show ?case by simp
next
  case (Suc n)
  then have lt: "idx < i" by simp
  then have r: "fork_ret e idx \<noteq> 0" using assms(1) by simp
  have lt': "int idx < int (length cmds) - 1" using lt assms(2) by linarith
  obtain z zs' where zs: "zs = z # zs'"
    using Suc.prems(2) lt assms(2) by (cases zs) auto
  have upd: "(map (fork_ret e) [0..<idx] @ zs)[idx := fork_ret e idx]
               = map (fork_ret e) [0..<idx + 1] @ zs'"
    using zs by (simp add: list_update_append)
  have n: "n = i - (idx + 1)" using Suc.hyps(2) by simp
  have le: "idx + 1 \<le> i" using lt by simp
  have len: "length zs' = length cmds - (idx + 1)" using Suc.prems(2) zs by simp
  have step: "launch_middle e g cmds fd idx (map (fork_ret e) [0..<idx] @ zs) p
          = launch_middle e g cmds fd (idx + 1) (map (fork_ret e) [0..<idx + 1] @ zs')
              (emit (forked (fork_ret e idx)) p)"
    using lt' r upd
    by (subst launch_middle.simps) (simp add: launch_process_parent)
  have dr: "drop (i - idx) zs = drop (i - (idx + 1)) zs'"
    using zs lt by (simp add: drop_Cons')
  have up: "[idx..<i] = idx # [idx + 1..<i]"
    using lt by (simp add: upt_conv_Cons)
  show ?case
    unfolding step Suc.hyps(1) [OF n le len] dr up by simp
qed

lemma forked_no_exec [simp]: "list_ex is_execvp (forked r) = False"
  by (simp add: forked_def)

lemma pipe_events_no_exec [simp]: "list_ex is_execvp (pipe_events n) = False"
  by (induction n) (simp_all add: pipe_events_def)

lemma forks_no_exec [simp]:
  "list_ex is_execvp (concat (map (\<lambda>j. forked (fork_ret e j)) js)) = False"
  by (induction js) simp_all

lemma dup2_onto_forked [simp]: "dup2_onto std (forked r) = []"
  by (simp add: forked_def)

lemma dup2_onto_pipe_events [simp]: "dup2_onto std (pipe_events n) = []"
  by (induction n) (simp_all add: pipe_events_def)

lemma dup2_onto_forks [simp]:
  "dup2_onto std (concat (map (\<lambda>j. forked (fork_ret e j)) js)) = []"
  by (induction js) simp_all

text \<open>The process in which the forks before stage \<open>i\<close> returned to the parent and the fork
  of stage \<open>i\<close> returned 0 is the child of stage \<open>i\<close>.\<close>

lemma launch_process_chain_child:
  assumes N: "2 \<le> length cmds" and i: "i < length cmds"
    and parent: "\<forall>j<i. fork_ret e j \<noteq> 0" and child: "fork_ret e i = 0"
  shows "launch_process_chain e g cmds p
     = launch_child e (g\<lparr>global_num_pipes := int (length cmds)\<rparr>) (cmds ! i)
         (if i = 0 then PIPE_OUT else if i < length cmds - 1 then PIPE_OUT OR PIPE_IN else PIPE_IN)
         (map (pipe_fd e) [0..<2 * length cmds]) (int i)
         (emit (pipe_events (length cmds) @ concat (map (\<lambda>j. forked (fork_ret e j)) [0..<i]) @ [Fork 0]) p)"
proof (cases "i = 0")
  case True
  moreover have "cmds \<noteq> []" using N by auto
  ultimately show ?thesis
    using child
    by (simp add: launch_process_chain_def Let_def launch_process_child and_then_launch_child)
next
  case False
  define g1 where "g1 = g\<lparr>global_num_pipes := int (length cmds)\<rparr>"
  define fd where "fd = map (pipe_fd e) [0..<2 * length cmds]"
  define p1 where "p1 = emit (pipe_events (length cmds)) p"
  have ne: "cmds \<noteq> []" using N by auto
  have r0: "fork_ret e 0 \<noteq> 0" using parent False by simp
  have first: "launch_process e g1 0 (cmds ! 0) PIPE_OUT fd 0 p1
      = Returns (fork_ret e 0) (emit (forked (fork_ret e 0)) p1)"
    using r0 by (rule launch_process_parent)
  have pids0: "(replicate (length cmds) 0)[0 := fork_ret e 0]
      = map (fork_ret e) [0..<1] @ replicate (length cmds - 1) 0"
    using N by (cases "length cmds") simp_all
  show ?thesis
  proof (cases "i < length cmds - 1")
    case True
    have mid: "launch_middle e g1 cmds fd 1 (map (fork_ret e) [0..<1] @ replicate (length cmds - 1) 0)
                 (emit (forked (fork_ret e 0)) p1)
        = launch_middle e g1 cmds fd i
            (map (fork_ret e) [0..<i] @ drop (i - 1) (replicate (length cmds - 1) 0))
            (emit (concat (map (\<lambda>j. forked (fork_ret e j)) [1..<i])) (emit (forked (fork_ret e 0)) p1))"
      using launch_middle_parent [OF parent, of cmds 1 "replicate (length cmds - 1) 0" g1 fd
          "emit (forked (fork_ret e 0)) p1"] True False
      by simp
    have lt: "int i < int (length cmds) - 1" using True by linarith
    have at_i: "launch_middle e g1 cmds fd i pids q
        = launch_child e g1 (cmds ! i) (PIPE_OUT OR PIPE_IN) fd (int i) (emit [Fork 0] q)" for pids q
      using lt child
      by (subst launch_middle.simps)
        (simp add: launch_process_child and_then_launch_child)
    have up: "[0..<i] = 0 # [1..<i]" using False by (simp add: upt_conv_Cons)
    show ?thesis
      using N ne False True
      unfolding launch_process_chain_def Let_def g1_def [symmetric] fd_def [symmetric] p1_def [symmetric]
        first and_then_Returns pids0 mid at_i and_then_launch_child up
      by (simp add: p1_def)
  next
    case last: False
    then have il: "i = length cmds - 1" using i by simp
    have mid: "launch_middle e g1 cmds fd 1 (map (fork_ret e) [0..<1] @ replicate (length cmds - 1) 0)
                 (emit (forked (fork_ret e 0)) p1)
        = launch_middle e g1 cmds fd i
            (map (fork_ret e) [0..<i] @ drop (i - 1) (replicate (length cmds - 1) 0))
            (emit (concat (map (\<lambda>j. forked (fork_ret e j)) [1..<i])) (emit (forked (fork_ret e 0)) p1))"
      using launch_middle_parent [OF parent, of cmds 1 "replicate (length cmds - 1) 0" g1 fd
          "emit (forked (fork_ret e 0)) p1"] il False
      by simp
    have nlt: "\<not> int i < int (length cmds) - 1" using il N by linarith
    have at_i: "launch_middle e g1 cmds fd i pids q = Returns (i, pids) q" for pids q
      using nlt by (subst launch_middle.simps) simp
    have up: "[0..<i] = 0 # [1..<i]" using False by (simp add: upt_conv_Cons)
    show ?thesis
      using N ne False last i child
      unfolding launch_process_chain_def Let_def g1_def [symmetric] fd_def [symmetric] p1_def [symmetric]
        first and_then_Returns pids0 mid at_i up
      by (simp add: p1_def launch_process_child and_then_launch_child)
  qed
qed

lemma pipe_bits [simp]:
  "PIPE_OUT AND PIPE_OUT = 1" "PIPE_OUT AND PIPE_IN = 0"
  "PIPE_IN AND PIPE_OUT = 0" "PIPE_IN AND PIPE_IN = 2"
  "(PIPE_OUT OR PIPE_IN) AND PIPE_OUT = 1" "(PIPE_OUT OR PIPE_IN) AND PIPE_IN = 2"
  "PIPE_OUT \<noteq> 0" "PIPE_IN \<noteq> 0"
  by (simp_all add: PIPE_OUT_def PIPE_IN_def)

lemma Pipe_in_pipe_events: "k < n \<Longrightarrow> Pipe (2 * k) \<in> set (pipe_events n)"
  by (simp add: pipe_events_def)

text \<open>What the child of stage \<open>i\<close> does, read off the chain.\<close>

lemma chain_child_events:
  fixes r :: "globals outcome"
  assumes N: "2 \<le> length cmds" and i: "i < length cmds"
    and parent: "\<forall>j<i. fork_ret e j \<noteq> 0" and child: "fork_ret e i = 0"
    and r: "r = launch_process_chain e g cmds p"
  shows "stops r"
    and "set (pipe_events (length cmds)) \<subseteq> set (new_events p r)"
    and "i = 0 \<Longrightarrow> dup2_onto STDIN_FILENO (new_events p r) = []"
    and "i = length cmds - 1 \<Longrightarrow> dup2_onto STDOUT_FILENO (new_events p r) = []"
    and "list_ex is_execvp (new_events p r) \<Longrightarrow>
           dup2_onto STDIN_FILENO (before_exec (new_events p r))
             = (if 1 \<le> i then [pipe_fd e (i * 2 - 2)] else [])"
    and "list_ex is_execvp (new_events p r) \<Longrightarrow>
           dup2_onto STDOUT_FILENO (before_exec (new_events p r))
             = (if i < length cmds - 1 then [pipe_fd e (i * 2 + 1)] else [])"
    and "list_ex is_execvp (new_events p r) \<Longrightarrow> k < 2 * length cmds \<Longrightarrow>
           Close (pipe_fd e k) \<in> set (before_exec (new_events p r))"
    and "list_ex is_execvp (new_events p r) \<Longrightarrow>
           before_exec (new_events p r)
             = pipe_events (length cmds) @ concat (map (\<lambda>j. forked (fork_ret e j)) [0..<i]) @ [Fork 0]
               @ (case dest (cmds ! i) of None \<Rightarrow> []
                  | Some x \<Rightarrow> [Redirect_open x ''w'', Fclose_std STDOUT_FILENO, Dup_file, Fclose_file])
               @ (if i < length cmds - 1 then [Dup2 (pipe_fd e (i * 2 + 1)) STDOUT_FILENO] else [])
               @ (case src (cmds ! i) of None \<Rightarrow> []
                  | Some x \<Rightarrow> [Redirect_open x ''r'', Fclose_std STDIN_FILENO, Dup_file, Fclose_file])
               @ (if 1 \<le> i then [Dup2 (pipe_fd e (i * 2 - 2)) STDIN_FILENO] else [])
               @ map (\<lambda>k. Close (pipe_fd e k)) [0..<2 * length cmds]"
proof -
  define g1 where "g1 = g\<lparr>global_num_pipes := int (length cmds)\<rparr>"
  define fd where "fd = map (pipe_fd e) [0..<2 * length cmds]"
  define opts where
    "opts = (if i = 0 then PIPE_OUT else if i < length cmds - 1 then PIPE_OUT OR PIPE_IN else PIPE_IN)"
  define pre where
    "pre = pipe_events (length cmds) @ concat (map (\<lambda>j. forked (fork_ret e j)) [0..<i]) @ [Fork 0]"
  define new' where "new' = new_events (emit pre p) r"
  have eq: "r = launch_child e g1 (cmds ! i) opts fd (int i) (emit pre p)"
    unfolding r g1_def fd_def opts_def pre_def
    by (rule launch_process_chain_child [OF N i parent child])
  have out: "opts AND PIPE_OUT \<noteq> 0 \<longleftrightarrow> i < length cmds - 1"
    using N i by (auto simp: opts_def)
  have inn: "opts AND PIPE_IN \<noteq> 0 \<longleftrightarrow> 1 \<le> i"
    using N i by (auto simp: opts_def)
  have len: "length fd = 2 * length cmds" by (simp add: fd_def)
  have w_all: "stops r \<and> events (outcome_proc r) = events (emit pre p) @ new'
     \<and> (opts AND PIPE_IN = 0 \<longrightarrow> dup2_onto STDIN_FILENO new' = [])
     \<and> (opts AND PIPE_OUT = 0 \<longrightarrow> dup2_onto STDOUT_FILENO new' = [])
     \<and> (list_ex is_execvp new' \<longrightarrow>
          set fd \<subseteq> {d. Close d \<in> set (before_exec new')}
          \<and> dup2_onto STDIN_FILENO (before_exec new')
              = (if opts AND PIPE_IN \<noteq> 0 then [fd ! nat (int i * 2 - 2)] else [])
          \<and> dup2_onto STDOUT_FILENO (before_exec new')
              = (if opts AND PIPE_OUT \<noteq> 0 then [fd ! nat (int i * 2 + 1)] else [])
          \<and> before_exec new'
              = (case dest (cmds ! i) of None \<Rightarrow> []
                 | Some x \<Rightarrow> [Redirect_open x ''w'', Fclose_std STDOUT_FILENO, Dup_file, Fclose_file])
                @ (if opts AND PIPE_OUT \<noteq> 0 then [Dup2 (fd ! nat (int i * 2 + 1)) STDOUT_FILENO] else [])
                @ (case src (cmds ! i) of None \<Rightarrow> []
                   | Some x \<Rightarrow> [Redirect_open x ''r'', Fclose_std STDIN_FILENO, Dup_file, Fclose_file])
                @ (if opts AND PIPE_IN \<noteq> 0 then [Dup2 (fd ! nat (int i * 2 - 2)) STDIN_FILENO] else [])
                @ map Close fd)"
    unfolding new'_def
  proof (rule launch_child_wiring [OF _ _ _ eq])
    show "global_num_pipes g1 * 2 = int (length fd)" by (simp add: g1_def len)
    show "opts AND PIPE_OUT \<noteq> 0 \<Longrightarrow> 0 \<le> int i * 2 + 1 \<and> int i * 2 + 1 < int (length fd)"
      using out len i by auto
    show "opts AND PIPE_IN \<noteq> 0 \<Longrightarrow> 0 \<le> int i * 2 - 2 \<and> int i * 2 - 2 < int (length fd)"
      using inn len i by auto
  qed
  from w_all have w: "stops r \<and> events (outcome_proc r) = events (emit pre p) @ new'
     \<and> (opts AND PIPE_IN = 0 \<longrightarrow> dup2_onto STDIN_FILENO new' = [])
     \<and> (opts AND PIPE_OUT = 0 \<longrightarrow> dup2_onto STDOUT_FILENO new' = [])
     \<and> (list_ex is_execvp new' \<longrightarrow>
          set fd \<subseteq> {d. Close d \<in> set (before_exec new')}
          \<and> dup2_onto STDIN_FILENO (before_exec new')
              = (if opts AND PIPE_IN \<noteq> 0 then [fd ! nat (int i * 2 - 2)] else [])
          \<and> dup2_onto STDOUT_FILENO (before_exec new')
              = (if opts AND PIPE_OUT \<noteq> 0 then [fd ! nat (int i * 2 + 1)] else []))"
    by blast
  have new: "new_events p r = pre @ new'"
    using w by (simp add: new_events_def)
  have noexec: "\<not> list_ex is_execvp pre" by (simp add: pre_def)
  have ex: "list_ex is_execvp (new_events p r) = list_ex is_execvp new'"
    using noexec by (simp add: new list_ex_append)
  have be: "before_exec (new_events p r) = pre @ before_exec new'"
    using noexec by (simp add: new before_exec_append)
  have dpre: "dup2_onto std pre = []" for std by (simp add: pre_def)
  have fd_in: "1 \<le> i \<Longrightarrow> fd ! nat (int i * 2 - 2) = pipe_fd e (i * 2 - 2)"
  proof -
    assume "1 \<le> i"
    then have "nat (int i * 2 - 2) = i * 2 - 2" by linarith
    moreover have "i * 2 - 2 < 2 * length cmds" using i by simp
    ultimately show ?thesis by (simp add: fd_def)
  qed
  have fd_out: "fd ! nat (int i * 2 + 1) = pipe_fd e (i * 2 + 1)"
  proof -
    have "nat (int i * 2 + 1) = i * 2 + 1" by linarith
    moreover have "i * 2 + 1 < 2 * length cmds" using i by simp
    ultimately show ?thesis by (simp add: fd_def)
  qed
  show "stops r" using w by simp
  show "set (pipe_events (length cmds)) \<subseteq> set (new_events p r)"
    by (auto simp: new pre_def)
  show "i = 0 \<Longrightarrow> dup2_onto STDIN_FILENO (new_events p r) = []"
    using w inn by (simp add: new dpre)
  show "i = length cmds - 1 \<Longrightarrow> dup2_onto STDOUT_FILENO (new_events p r) = []"
    using w out by (simp add: new dpre)
  show "list_ex is_execvp (new_events p r) \<Longrightarrow>
           dup2_onto STDIN_FILENO (before_exec (new_events p r))
             = (if 1 \<le> i then [pipe_fd e (i * 2 - 2)] else [])"
    using w inn fd_in unfolding ex be by (simp add: dpre)
  show "list_ex is_execvp (new_events p r) \<Longrightarrow>
           dup2_onto STDOUT_FILENO (before_exec (new_events p r))
             = (if i < length cmds - 1 then [pipe_fd e (i * 2 + 1)] else [])"
    using w out fd_out unfolding ex be by (simp add: dpre)
  show "list_ex is_execvp (new_events p r) \<Longrightarrow> k < 2 * length cmds \<Longrightarrow>
           Close (pipe_fd e k) \<in> set (before_exec (new_events p r))"
  proof -
    assume a: "list_ex is_execvp (new_events p r)" and k: "k < 2 * length cmds"
    have "pipe_fd e k \<in> set fd" using k by (auto simp: fd_def)
    moreover have "set fd \<subseteq> {d. Close d \<in> set (before_exec new')}"
      using w a ex by simp
    ultimately show ?thesis by (auto simp: be)
  qed
  show "list_ex is_execvp (new_events p r) \<Longrightarrow>
           before_exec (new_events p r)
             = pipe_events (length cmds) @ concat (map (\<lambda>j. forked (fork_ret e j)) [0..<i]) @ [Fork 0]
               @ (case dest (cmds ! i) of None \<Rightarrow> []
                  | Some x \<Rightarrow> [Redirect_open x ''w'', Fclose_std STDOUT_FILENO, Dup_file, Fclose_file])
               @ (if i < length cmds - 1 then [Dup2 (pipe_fd e (i * 2 + 1)) STDOUT_FILENO] else [])
               @ (case src (cmds ! i) of None \<Rightarrow> []
                  | Some x \<Rightarrow> [Redirect_open x ''r'', Fclose_std STDIN_FILENO, Dup_file, Fclose_file])
               @ (if 1 \<le> i then [Dup2 (pipe_fd e (i * 2 - 2)) STDIN_FILENO] else [])
               @ map (\<lambda>k. Close (pipe_fd e k)) [0..<2 * length cmds]"
  proof -
    assume a: "list_ex is_execvp (new_events p r)"
    have cl: "map Close fd = map (\<lambda>k. Close (pipe_fd e k)) [0..<2 * length cmds]"
      by (simp add: fd_def)
    have "before_exec new'
        = (case dest (cmds ! i) of None \<Rightarrow> []
           | Some x \<Rightarrow> [Redirect_open x ''w'', Fclose_std STDOUT_FILENO, Dup_file, Fclose_file])
          @ (if opts AND PIPE_OUT \<noteq> 0 then [Dup2 (fd ! nat (int i * 2 + 1)) STDOUT_FILENO] else [])
          @ (case src (cmds ! i) of None \<Rightarrow> []
             | Some x \<Rightarrow> [Redirect_open x ''r'', Fclose_std STDIN_FILENO, Dup_file, Fclose_file])
          @ (if opts AND PIPE_IN \<noteq> 0 then [Dup2 (fd ! nat (int i * 2 - 2)) STDIN_FILENO] else [])
          @ map Close fd"
      using w_all a ex by blast
    then show ?thesis
      unfolding be pre_def cl using out inn fd_in fd_out by simp
  qed
qed


subsection \<open>The stages of a pipeline\<close>

text \<open>
  In a chain of \<open>N\<close> commands the array \<^verbatim>\<open>fd\<close> has \<open>2 * N\<close> slots, and \<open>pipe_fd e k\<close> is
  the descriptor in slot \<open>k\<close>: the call \<open>Pipe (2 * k)\<close> puts the read end of the \<open>k\<close>-th pipe
  in slot \<open>2 * k\<close> and its write end in slot \<open>2 * k + 1\<close>. The child of stage \<open>i\<close> is the
  process in which the forks of the stages before \<open>i\<close> returned to the parent
  (\<open>fork_ret e j \<noteq> 0\<close>) and the fork of stage \<open>i\<close> returned 0.
\<close>

text \<open>
  Claim C1. For every chain of \<open>N \<ge> 2\<close> commands launched by \<^verbatim>\<open>launch_process_chain\<close> and
  every stage \<open>i\<close>, the child of stage \<open>i\<close> never returns to the shell, and when it reaches
  \<^verbatim>\<open>execvp\<close> then before that: for \<open>i \<ge> 1\<close> it has duplicated onto its standard input
  exactly the descriptor \<^verbatim>\<open>fd[i * 2 - 2]\<close>, the read end of the pipe (created by the call
  \<open>Pipe (i * 2 - 2)\<close>) whose write end \<^verbatim>\<open>fd[(i - 1) * 2 + 1]\<close> stage \<open>i - 1\<close> duplicates onto
  its standard output; and for \<open>i < N - 1\<close> it has duplicated onto its standard output
  exactly \<^verbatim>\<open>fd[i * 2 + 1]\<close>. The first stage duplicates nothing onto its standard input
  and the last stage nothing onto its standard output. What the child has done when it
  reaches \<^verbatim>\<open>execvp\<close> is, in this order: the \<open>N\<close> calls of \<^verbatim>\<open>pipe\<close> and the forks of the stages
  before it (inherited from the shell), its own fork, the redirect of its output to a file
  if it names one, the pipe onto its standard output, the redirect of its input from a file
  if it names one, the pipe onto its standard input, and the closing of all \<open>2 * N\<close>
  descriptors; each pipe is duplicated after the redirect of the same stream, so it is the
  pipe that the stream is connected to.
\<close>

theorem C1_pipe_wiring:
  assumes "2 \<le> length commands" and "i < length commands"
    and "\<forall>j<i. fork_ret e j \<noteq> 0" and "fork_ret e i = 0"
  shows "stops (launch_process_chain e g commands p)
     \<and> (1 \<le> i \<longrightarrow> Pipe (i * 2 - 2) \<in> set (new_events p (launch_process_chain e g commands p)))
     \<and> (i < length commands - 1 \<longrightarrow>
           Pipe (i * 2) \<in> set (new_events p (launch_process_chain e g commands p)))
     \<and> (list_ex is_execvp (new_events p (launch_process_chain e g commands p)) \<longrightarrow>
           dup2_onto STDIN_FILENO (before_exec (new_events p (launch_process_chain e g commands p)))
             = (if 1 \<le> i then [pipe_fd e (i * 2 - 2)] else [])
         \<and> dup2_onto STDOUT_FILENO (before_exec (new_events p (launch_process_chain e g commands p)))
             = (if i < length commands - 1 then [pipe_fd e (i * 2 + 1)] else []))
     \<and> (i = 0 \<longrightarrow> dup2_onto STDIN_FILENO (new_events p (launch_process_chain e g commands p)) = [])
     \<and> (i = length commands - 1 \<longrightarrow>
           dup2_onto STDOUT_FILENO (new_events p (launch_process_chain e g commands p)) = [])
     \<and> (list_ex is_execvp (new_events p (launch_process_chain e g commands p)) \<longrightarrow>
           before_exec (new_events p (launch_process_chain e g commands p))
             = pipe_events (length commands)
               @ concat (map (\<lambda>j. forked (fork_ret e j)) [0..<i]) @ [Fork 0]
               @ (case dest (commands ! i) of None \<Rightarrow> []
                  | Some x \<Rightarrow> [Redirect_open x ''w'', Fclose_std STDOUT_FILENO, Dup_file, Fclose_file])
               @ (if i < length commands - 1 then [Dup2 (pipe_fd e (i * 2 + 1)) STDOUT_FILENO] else [])
               @ (case src (commands ! i) of None \<Rightarrow> []
                  | Some x \<Rightarrow> [Redirect_open x ''r'', Fclose_std STDIN_FILENO, Dup_file, Fclose_file])
               @ (if 1 \<le> i then [Dup2 (pipe_fd e (i * 2 - 2)) STDIN_FILENO] else [])
               @ map (\<lambda>k. Close (pipe_fd e k)) [0..<2 * length commands])"
proof -
  note ch = chain_child_events [where g = g and p = p, OF assms refl]
  have p_in: "1 \<le> i \<Longrightarrow> Pipe (i * 2 - 2) \<in> set (pipe_events (length commands))"
  proof -
    assume "1 \<le> i"
    then have "i * 2 - 2 = 2 * (i - 1)" by simp
    then show ?thesis
      using Pipe_in_pipe_events [of "i - 1" "length commands"] assms(2) by simp
  qed
  have p_out: "Pipe (i * 2) \<in> set (pipe_events (length commands))"
    using Pipe_in_pipe_events [of i "length commands"] assms(2) by (simp add: mult.commute)
  show ?thesis
    using ch(1) ch(2) ch(3) ch(4) ch(5) ch(6) ch(8) p_in p_out by blast
qed

theorem C1_pipe_wiring_witness:
  "launch_process_chain
     \<lparr>env_HOME = None, env_pw_dir = None, chdir_to = (\<lambda>c d. None),
        fork_ret = (\<lambda>k. if k = 0 then 100 else 0), pipe_fd = (\<lambda>k. int k + 3),
        fopen_ok = (\<lambda>f. True), execvp_ok = True\<rparr>
     initial_globals
     [\<lparr>argv = Some [Some ''a'', None], dest = None, src = None, is_bkg_proc = False\<rparr>,
      \<lparr>argv = Some [Some ''b'', None], dest = None, src = None, is_bkg_proc = False\<rparr>]
     \<lparr>cwd = ''/'', events = []\<rparr>
   = Stops \<lparr>cwd = ''/'',
              events = [Pipe 0, Pipe 2, Fork 100, Fork 0, Dup2 3 0, Close 3, Close 4, Close 5,
                        Close 6, Execvp (Some ''b'') [Some ''b'', None]]\<rparr>
   \<and> dup2_onto STDIN_FILENO (before_exec (new_events \<lparr>cwd = ''/'', events = []\<rparr>
         (launch_process_chain
            \<lparr>env_HOME = None, env_pw_dir = None, chdir_to = (\<lambda>c d. None),
        fork_ret = (\<lambda>k. if k = 0 then 100 else 0), pipe_fd = (\<lambda>k. int k + 3),
        fopen_ok = (\<lambda>f. True), execvp_ok = True\<rparr>
            initial_globals
            [\<lparr>argv = Some [Some ''a'', None], dest = None, src = None, is_bkg_proc = False\<rparr>,
      \<lparr>argv = Some [Some ''b'', None], dest = None, src = None, is_bkg_proc = False\<rparr>]
            \<lparr>cwd = ''/'', events = []\<rparr>))) = [3]"
  using C1_pipe_wiring
    [of "[\<lparr>argv = Some [Some ''a'', None], dest = None, src = None, is_bkg_proc = False\<rparr>,
      \<lparr>argv = Some [Some ''b'', None], dest = None, src = None, is_bkg_proc = False\<rparr>]" 1
        "\<lparr>env_HOME = None, env_pw_dir = None, chdir_to = (\<lambda>c d. None),
        fork_ret = (\<lambda>k. if k = 0 then 100 else 0), pipe_fd = (\<lambda>k. int k + 3),
        fopen_ok = (\<lambda>f. True), execvp_ok = True\<rparr>"
        initial_globals "\<lparr>cwd = ''/'', events = []\<rparr>"]
  by (simp add: launch_process_chain_def launch_process_def launch_child_def launch_middle.simps
      close_loop.simps fd_at_def dup2_slot_def and_then_def emit_def pipe_events_def wait_events_def
      forked_def new_events_def initial_globals_def PIPE_OUT_def PIPE_IN_def STDIN_FILENO_def
      STDOUT_FILENO_def upt_conv_Cons)





text \<open>The parent of a chain of one command, whatever the command and the environment.\<close>

lemma launch_process_chain_single_parent:
  "fork_ret e 0 \<noteq> 0 \<Longrightarrow>
     launch_process_chain e g [c] p
       = Stops (emit (Pipe 0 # forked (fork_ret e 0) @ [Fault]) p)"
  by (simp add: launch_process_chain_def Let_def launch_process_parent launch_middle.simps
      pipe_events_def)


section \<open>A single command in the foreground\<close>

text \<open>
  Claim C10. Let a line be parsed by \<^verbatim>\<open>parse_single_command\<close> with success and the
  background flag false. In the parent, whatever nonzero value \<^verbatim>\<open>launch_process\<close> returns,
  \<^verbatim>\<open>shell_eval\<close> calls \<^verbatim>\<open>waitpid\<close> with it. When \<^verbatim>\<open>fork\<close> fails, \<^verbatim>\<open>launch_process\<close>
  reports the error and returns -1, so the call is \<^verbatim>\<open>waitpid(-1, ...)\<close>, a wait for any
  child: it blocks whenever the shell has children and all of them are running, none of
  which the failed fork created.
\<close>

theorem C10_wait_after_failed_fork:
  assumes "p_vec \<noteq> []" and "global_num_builtins g = 0" and "parse_builtin_cmds g = PARSE_SUCCESS"
    and "global_num_commands g = 1"
    and "parse_single_command p_vec zero_command g = Inr (PARSE_SUCCESS, c, g1)"
    and "\<not> global_bkg_proc g1"
  shows "(fork_ret e 0 \<noteq> 0 \<longrightarrow>
            shell_eval e p_vec g p
              = Returns g1 (emit (forked (fork_ret e 0) @ [Waitpid (fork_ret e 0)]) p))
       \<and> (fork_ret e 0 = - 1 \<longrightarrow>
            launch_process e g1 0 c PIPE_NONE [] 0 p
              = Returns (- 1) (emit [Fork (- 1), Perror ''ERROR: fork''] p)
            \<and> shell_eval e p_vec g p
              = Returns g1 (emit [Fork (- 1), Perror ''ERROR: fork'', Waitpid (- 1)] p)
            \<and> (\<forall>children. children \<noteq> [] \<and> list_all (\<lambda>c. snd c = Running) children
                  \<longrightarrow> waitpid_blocks children (- 1)))"
proof -
  have lp: "fork_ret e 0 \<noteq> 0 \<Longrightarrow>
      launch_process e g1 0 c PIPE_NONE [] 0 p = Returns (fork_ret e 0) (emit (forked (fork_ret e 0)) p)"
    by (rule launch_process_parent)
  have ev: "fork_ret e 0 \<noteq> 0 \<Longrightarrow>
      shell_eval e p_vec g p = Returns g1 (emit (forked (fork_ret e 0) @ [Waitpid (fork_ret e 0)]) p)"
    using assms by (simp add: shell_eval_def lp)
  have bl: "children \<noteq> [] \<and> list_all (\<lambda>c. snd c = Running) children
      \<longrightarrow> waitpid_blocks children (- 1)" for children :: "(int \<times> child_state) list"
    by (simp add: waitpid_blocks_def)
  show ?thesis
    using lp ev bl by (auto simp: forked_def)
qed

theorem C10_wait_after_failed_fork_witness:
  "shell_eval
     \<lparr>env_HOME = None, env_pw_dir = None, chdir_to = (\<lambda>c d. None), fork_ret = (\<lambda>k. - 1),
        pipe_fd = (\<lambda>k. int k + 3), fopen_ok = (\<lambda>f. True), execvp_ok = True\<rparr>
     [''ls'']
     \<lparr>global_num_pipes = 0, global_num_commands = 1, global_bkg_proc = False,
        global_builtin_idxs = [- 1, - 1], global_num_builtins = 0\<rparr>
     \<lparr>cwd = ''/'', events = []\<rparr>
   = Returns
       \<lparr>global_num_pipes = 0, global_num_commands = 1, global_bkg_proc = False,
          global_builtin_idxs = [- 1, - 1], global_num_builtins = 0\<rparr>
       \<lparr>cwd = ''/'', events = [Fork (- 1), Perror ''ERROR: fork'', Waitpid (- 1)]\<rparr>
   \<and> waitpid_blocks [(100, Running)] (- 1)"
  using C10_wait_after_failed_fork
    [of "[''ls'']"
        "\<lparr>global_num_pipes = 0, global_num_commands = 1, global_bkg_proc = False,
           global_builtin_idxs = [- 1, - 1], global_num_builtins = 0\<rparr>"
        "\<lparr>argv = Some [Some ''ls'', None], dest = None, src = None, is_bkg_proc = False\<rparr>"
        "\<lparr>global_num_pipes = 0, global_num_commands = 1, global_bkg_proc = False,
           global_builtin_idxs = [- 1, - 1], global_num_builtins = 0\<rparr>"
        "\<lparr>env_HOME = None, env_pw_dir = None, chdir_to = (\<lambda>c d. None), fork_ret = (\<lambda>k. - 1),
           pipe_fd = (\<lambda>k. int k + 3), fopen_ok = (\<lambda>f. True), execvp_ok = True\<rparr>"
        "\<lparr>cwd = ''/'', events = []\<rparr>"]
  by (simp add: parse_builtin_cmds_def NUM_BUILTINS_def numeral_2_eq_2 parser_simps emit_def
      forked_def)

section \<open>One line after another\<close>

text \<open>
  The globals that outlive a line are reset by \<^verbatim>\<open>shell_read\<close> (the command count and
  the builtin tags), overwritten before they are read (\<^verbatim>\<open>global_num_pipes\<close>) or, for the
  background flag, set only by a parse that succeeds and cleared again by the launch that
  follows it.
\<close>

lemma lexer_action_frame:
  "lexer_action l (toks, g\<lparr>global_num_pipes := n, global_bkg_proc := b\<rparr>)
     = (case lexer_action l (toks, g) of
          (t, h) \<Rightarrow> (t, h\<lparr>global_num_pipes := n, global_bkg_proc := b\<rparr>))"
  by (cases l) (simp_all add: lexer_action_def)

lemma lexer_parse_buffer_frame:
  "lexer_parse_buffer ls (toks, g\<lparr>global_num_pipes := n, global_bkg_proc := b\<rparr>)
     = (case lexer_parse_buffer ls (toks, g) of
          (t, h) \<Rightarrow> (t, h\<lparr>global_num_pipes := n, global_bkg_proc := b\<rparr>))"
  unfolding lexer_parse_buffer_def
proof (induction ls arbitrary: toks g)
  case Nil
  then show ?case by simp
next
  case (Cons l ls)
  obtain t h where a: "lexer_action l (toks, g) = (t, h)" by (cases "lexer_action l (toks, g)")
  show ?case
    using Cons.IH [of t h] by (simp add: lexer_action_frame a)
qed

lemma lexer_action_bkg:
  "global_bkg_proc (snd (lexer_action l (toks, g))) = global_bkg_proc g"
  "global_num_pipes (snd (lexer_action l (toks, g))) = global_num_pipes g"
  by (cases l; simp add: lexer_action_def)+

lemma lexer_parse_buffer_bkg:
  "global_bkg_proc (snd (lexer_parse_buffer ls (toks, g))) = global_bkg_proc g
   \<and> global_num_pipes (snd (lexer_parse_buffer ls (toks, g))) = global_num_pipes g"
  unfolding lexer_parse_buffer_def
proof (induction ls arbitrary: toks g)
  case Nil
  then show ?case by simp
next
  case (Cons l ls)
  obtain t h where a: "lexer_action l (toks, g) = (t, h)" by (cases "lexer_action l (toks, g)")
  show ?case
    using Cons.IH [of t h] lexer_action_bkg [of l toks g] by (simp add: a)
qed

text \<open>A parse that fails leaves the background flag as it was.\<close>

lemma parse_single_loop_bkg:
  "parse_single_loop p_vec idx seen c bkg = Inr (r, c', bkg') \<Longrightarrow> bkg' = bkg \<or> r = PARSE_SUCCESS"
proof (induction "length p_vec - idx" arbitrary: idx seen c bkg rule: less_induct)
  case less
  show ?case
  proof (cases "idx < length p_vec")
    case False
    then show ?thesis using less.prems by simp
  next
    case True
    have ih: "parse_single_loop p_vec j s d b = Inr (r, c', bkg') \<Longrightarrow> idx < j
        \<Longrightarrow> bkg' = b \<or> r = PARSE_SUCCESS" for j s d b
      using less.hyps [of j s d b] True by simp
    show ?thesis
      using less.prems True
      by (subst (asm) parse_single_loop.simps)
        (auto split: if_splits sum.splits dest!: ih)
  qed
qed

lemma parse_multiple_loop_end:
  "length p_vec \<le> idx \<Longrightarrow>
     parse_multiple_loop p_vec idx start seen cur cmds bkg
       = (if seen then
            (case slice_argv_from_vec p_vec start (size_t_of (int idx - 1)) of
               Inl f \<Rightarrow> Inl f
             | Inr a \<Rightarrow> Inr (PARSE_SUCCESS, cmds @ [cur\<lparr>argv := Some a\<rparr>], bkg))
          else Inr (PARSE_SUCCESS, cmds, bkg))"
  by (subst parse_multiple_loop.simps) simp

lemma parse_multiple_loop_bkg:
  "parse_multiple_loop p_vec idx start seen cur cmds bkg = Inr (r, cmds', bkg')
     \<Longrightarrow> bkg' = bkg \<or> r = PARSE_SUCCESS"
proof (induction "length p_vec - idx" arbitrary: idx start seen cur cmds bkg rule: less_induct)
  case less
  show ?case
  proof (cases "idx < length p_vec")
    case False
    then show ?thesis
      using less.prems by (auto simp: parse_multiple_loop_end split: if_splits sum.splits)
  next
    case True
    have ih: "parse_multiple_loop p_vec j st s d cs b = Inr (r, cmds', bkg') \<Longrightarrow> idx < j
        \<Longrightarrow> bkg' = b \<or> r = PARSE_SUCCESS" for j st s d cs b
      using less.hyps [of j st s d cs b] True by simp
    show ?thesis
      using less.prems True
      by (subst (asm) parse_multiple_loop.simps)
        (auto simp: parse_multiple_loop_end split: if_splits sum.splits dest!: ih)
  qed
qed

lemma parse_single_command_bkg:
  assumes "parse_single_command p_vec c g = Inr (r, c', g')"
  shows "global_bkg_proc g' = global_bkg_proc g \<or> r = PARSE_SUCCESS"
  using assms parse_single_loop_bkg [of p_vec 0 False c "global_bkg_proc g" r c']
  by (auto simp: parse_single_command_def Let_def split: if_splits sum.splits prod.splits)

lemma parse_multiple_commands_bkg:
  assumes "parse_multiple_commands p_vec cs g = Inr (r, cs', g')"
  shows "global_bkg_proc g' = global_bkg_proc g \<or> r = PARSE_SUCCESS"
  using assms
  by (auto simp: parse_multiple_commands_def Let_def
      split: if_splits sum.splits prod.splits option.splits dest!: parse_multiple_loop_bkg)

lemma launch_process_chain_bkg:
  "launch_process_chain e g cmds p = Returns g' q \<Longrightarrow> \<not> global_bkg_proc g'"
  by (auto simp: launch_process_chain_def Let_def and_then_def
      split: if_splits outcome.splits prod.splits)

lemma shell_eval_bkg:
  assumes "\<not> global_bkg_proc g" and "shell_eval e p_vec g p = Returns g' q"
  shows "\<not> global_bkg_proc g'"
proof -
  have single: "parse_single_command p_vec zero_command g = Inr (PARSE_ERROR, c, g1)
      \<Longrightarrow> \<not> global_bkg_proc g1" for c g1
    using parse_single_command_bkg [of p_vec zero_command g PARSE_ERROR c g1] assms(1) by simp
  have multi: "parse_multiple_commands p_vec [] g = Inr (PARSE_ERROR, cs, g1)
      \<Longrightarrow> \<not> global_bkg_proc g1" for cs g1
    using parse_multiple_commands_bkg [of p_vec "[]" g PARSE_ERROR cs g1] assms(1) by simp
  show ?thesis
    using assms single multi
    by (auto simp: shell_eval_def and_then_def
        split: if_splits sum.splits prod.splits outcome.splits dest: launch_process_chain_bkg)
qed

lemma parse_builtin_cmds_frame:
  "parse_builtin_cmds (g\<lparr>global_num_pipes := n\<rparr>) = parse_builtin_cmds g"
  by (simp add: parse_builtin_cmds_def)

lemma parse_single_command_frame:
  "parse_single_command p_vec c (g\<lparr>global_num_pipes := n\<rparr>) = parse_single_command p_vec c g"
  by (simp add: parse_single_command_def)

lemma parsed_parse_multiple_commands_frame:
  "parsed (parse_multiple_commands p_vec cs (g\<lparr>global_num_pipes := n\<rparr>))
     = parsed (parse_multiple_commands p_vec cs g)"
  by (simp add: parsed_def parse_multiple_commands_def Let_def
      split: sum.splits option.splits prod.splits)

text \<open>
  Claim C9. Let the background flag be false, as it is when the shell starts, and let a
  turn of the loop of \<^verbatim>\<open>main\<close> read and evaluate a line and return. Then the background flag
  is false again, and reading the same line once more gives the same tokens and the same
  tags, and parsing them gives the same result as the first time: the same verdict on the
  builtins, and from both parsers the same result code, the same commands with their
  redirects and the same background flag.
\<close>

theorem C9_reparse_same_result:
  assumes "\<not> global_bkg_proc g" and "main_turn e (Some line) g p = Returns g' p'"
  shows "\<not> global_bkg_proc g'
     \<and> (\<exists>p_vec t t'.
           shell_read (Some line) g p = Returns (p_vec, t) p
         \<and> shell_read (Some line) g' p' = Returns (p_vec, t') p'
         \<and> global_num_commands t' = global_num_commands t
         \<and> global_num_builtins t' = global_num_builtins t
         \<and> global_builtin_idxs t' = global_builtin_idxs t
         \<and> global_bkg_proc t' = global_bkg_proc t
         \<and> parse_builtin_cmds t' = parse_builtin_cmds t
         \<and> parsed (parse_single_command p_vec zero_command t')
             = parsed (parse_single_command p_vec zero_command t)
         \<and> parsed (parse_multiple_commands p_vec [] t')
             = parsed (parse_multiple_commands p_vec [] t))"
proof -
  define R where "R h = h\<lparr>global_num_commands := 1, global_num_builtins := 0,
    global_builtin_idxs := [- 1, - 1]\<rparr>" for h :: globals
  obtain p_vec t where lex: "lexer_parse_buffer line ([], R g) = (p_vec, t)"
    by (cases "lexer_parse_buffer line ([], R g)")
  have read: "shell_read (Some line) h q = Returns (lexer_parse_buffer line ([], R h)) q" for h q
    by (simp add: shell_read_def R_def)
  have t_bkg: "\<not> global_bkg_proc t"
    using lexer_parse_buffer_bkg [where ls = line and toks = "[]" and g = "R g"] assms(1)
    unfolding lex by (simp add: R_def)
  have "shell_eval e p_vec t p = Returns g' p'"
    using assms(2) by (simp add: main_turn_def read lex)
  then have g'_bkg: "\<not> global_bkg_proc g'"
    using t_bkg by (rule shell_eval_bkg [rotated])
  have "R g' = (R g)\<lparr>global_num_pipes := global_num_pipes g', global_bkg_proc := global_bkg_proc g'\<rparr>"
    by (cases g; cases g') (simp add: R_def)
  then have lex': "lexer_parse_buffer line ([], R g')
      = (p_vec, t\<lparr>global_num_pipes := global_num_pipes g', global_bkg_proc := global_bkg_proc g'\<rparr>)"
    using lexer_parse_buffer_frame [where ls = line and toks = "[]" and g = "R g"
        and n = "global_num_pipes g'" and b = "global_bkg_proc g'"]
    by (simp add: lex)
  have "t\<lparr>global_bkg_proc := global_bkg_proc g'\<rparr> = t"
    using t_bkg g'_bkg by (cases t) simp
  then have t': "t\<lparr>global_num_pipes := global_num_pipes g', global_bkg_proc := global_bkg_proc g'\<rparr>
      = t\<lparr>global_num_pipes := global_num_pipes g'\<rparr>"
    by (cases t) simp
  have "shell_read (Some line) g p = Returns (p_vec, t) p
      \<and> shell_read (Some line) g' p' = Returns (p_vec, t\<lparr>global_num_pipes := global_num_pipes g'\<rparr>) p'"
    by (simp add: read lex lex' t')
  then show ?thesis
    using g'_bkg
    by (auto simp: parse_builtin_cmds_frame parse_single_command_frame
        parsed_parse_multiple_commands_frame
        intro!: exI [of _ p_vec] exI [of _ t] exI [of _ "t\<lparr>global_num_pipes := global_num_pipes g'\<rparr>"])
qed

theorem C9_reparse_same_result_witness:
  "main_turn
     \<lparr>env_HOME = None, env_pw_dir = None, chdir_to = (\<lambda>c d. None), fork_ret = (\<lambda>k. 100),
        pipe_fd = (\<lambda>k. int k + 3), fopen_ok = (\<lambda>f. True), execvp_ok = True\<rparr>
     (Some [Lex_word ''ls'', Lex_op ''&'']) initial_globals \<lparr>cwd = ''/'', events = []\<rparr>
   = Returns
     \<lparr>global_num_pipes = 0, global_num_commands = 1, global_bkg_proc = False,
        global_builtin_idxs = [- 1, - 1], global_num_builtins = 0\<rparr>
     \<lparr>cwd = ''/'', events = [Fork 100]\<rparr>
   \<and> shell_read (Some [Lex_word ''ls'', Lex_op ''&'']) initial_globals \<lparr>cwd = ''/'', events = []\<rparr>
   = Returns ([''ls'', ''&''],
     \<lparr>global_num_pipes = 0, global_num_commands = 1, global_bkg_proc = False,
        global_builtin_idxs = [- 1, - 1], global_num_builtins = 0\<rparr>)
     \<lparr>cwd = ''/'', events = []\<rparr>
   \<and> shell_read (Some [Lex_word ''ls'', Lex_op ''&''])
     \<lparr>global_num_pipes = 0, global_num_commands = 1, global_bkg_proc = False,
        global_builtin_idxs = [- 1, - 1], global_num_builtins = 0\<rparr>
     \<lparr>cwd = ''/'', events = [Fork 100]\<rparr>
   = Returns ([''ls'', ''&''],
     \<lparr>global_num_pipes = 0, global_num_commands = 1, global_bkg_proc = False,
        global_builtin_idxs = [- 1, - 1], global_num_builtins = 0\<rparr>)
     \<lparr>cwd = ''/'', events = [Fork 100]\<rparr>
   \<and> parsed (parse_single_command [''ls'', ''&''] zero_command
     \<lparr>global_num_pipes = 0, global_num_commands = 1, global_bkg_proc = False,
        global_builtin_idxs = [- 1, - 1], global_num_builtins = 0\<rparr>)
   = Inr (PARSE_SUCCESS,
          \<lparr>argv = Some [Some ''ls'', None], dest = None, src = None, is_bkg_proc = False\<rparr>, True)"
  using C9_reparse_same_result
    [of initial_globals
        "\<lparr>env_HOME = None, env_pw_dir = None, chdir_to = (\<lambda>c d. None), fork_ret = (\<lambda>k. 100),
        pipe_fd = (\<lambda>k. int k + 3), fopen_ok = (\<lambda>f. True), execvp_ok = True\<rparr>"
        "[Lex_word ''ls'', Lex_op ''&'']" "\<lparr>cwd = ''/'', events = []\<rparr>"
        "\<lparr>global_num_pipes = 0, global_num_commands = 1, global_bkg_proc = False,
        global_builtin_idxs = [- 1, - 1], global_num_builtins = 0\<rparr>"
        "\<lparr>cwd = ''/'', events = [Fork 100]\<rparr>"]
  by (simp add: main_turn_def shell_read_def lexer_parse_buffer_def lexer_action_def shell_eval_def
      parse_builtin_cmds_def NUM_BUILTINS_def numeral_2_eq_2 parser_simps launch_process_def
      emit_def parsed_def initial_globals_def)

end
